theory Spec2Isabelle
  imports Main "HOL-Library.AList"
begin

section \<open>Python values, exceptions and printed output\<close>

text \<open>
  The repository is Python. Every method either returns a value or raises; a method that
  raises is modelled by \<open>Inl e\<close>, one that returns by \<open>Inr v\<close>. The exceptions of the
  model are the instances of Python's \<open>Exception\<close>: the handlers of the source are
  \<open>except FileNotFoundError\<close> and \<open>except Exception\<close>, so the only distinction the
  code makes is whether the exception is a \<open>FileNotFoundError\<close>. Interpreter signals
  that are not instances of \<open>Exception\<close> (\<open>KeyboardInterrupt\<close>, \<open>SystemExit\<close>) are
  outside the model. \<open>str e\<close> is what \<open>f"{e}"\<close> prints.
\<close>

datatype exn_class = FileNotFoundError | OtherError

datatype exn = Exn (exn_class: exn_class) (str: string)

text \<open>Metadata values: the splitters store a string or an integer under their keys.\<close>

datatype pyval = PStr string | PInt int

text \<open>
  A dict with string keys is an association list in insertion order. Python's
  \<open>{**m, k: v}\<close> copies \<open>m\<close> and then stores \<open>v\<close> under \<open>k\<close>: an existing key keeps its
  place and gets the new value, a new key is appended. That is \<open>AList.update k v m\<close>.
\<close>

type_synonym pydict = "(string \<times> pyval) list"

record Document =
  page_content :: string
  metadata :: pydict

definition quote :: string where
  "quote = [CHR 0x27]"

definition digit_char :: "nat \<Rightarrow> char" where
  "digit_char n = ''0123456789'' ! n"

text \<open>Decimal text of a non-negative integer, as \<open>f"{n}"\<close> prints it.\<close>

function str_nat :: "nat \<Rightarrow> string" where
  "str_nat n = (if n < 10 then [digit_char n] else str_nat (n div 10) @ [digit_char (n mod 10)])"
  by pat_completeness auto
termination
  by (relation "measure id") auto

declare str_nat.simps [simp del]

section \<open>Splitters (src/splitters.py)\<close>

text \<open>
  The text splitters and the HTML parser are third-party libraries; they are parameters of
  the model. A constructed splitter is its \<open>split_text\<close> method, which returns the chunks
  of a text or raises. The constructors may raise too (langchain rejects a chunk overlap
  larger than the chunk size).
\<close>

type_synonym text_splitter = "string \<Rightarrow> exn + string list"

type_synonym recursive_ctor = "int \<Rightarrow> int \<Rightarrow> exn + text_splitter"

type_synonym character_ctor = "string \<Rightarrow> int \<Rightarrow> int \<Rightarrow> exn + text_splitter"

text \<open>
  \<open>BeautifulSoup(content, "html.parser")\<close> parses or raises; \<open>find_all\<close> lists the
  elements of a tag name in document order and \<open>get_text\<close> gives an element's plain text.
\<close>

record ('soup, 'elem) bs4 =
  BeautifulSoup :: "string \<Rightarrow> exn + 'soup"
  find_all :: "'soup \<Rightarrow> string \<Rightarrow> 'elem list"
  get_text :: "'elem \<Rightarrow> string"

text \<open>Line 40: the comprehension runs over the tag list first, then over the matches of each tag.\<close>

definition sections :: "('soup, 'elem) bs4 \<Rightarrow> 'soup \<Rightarrow> string list \<Rightarrow> (string \<times> string) list" where
  "sections lib soup headers_to_split_on =
     [(header_tag, get_text lib element).
        header_tag \<leftarrow> headers_to_split_on, element \<leftarrow> find_all lib soup header_tag]"

text \<open>Lines 47-54: the chunk document of the HTML splitter.\<close>

definition html_chunk :: "pydict \<Rightarrow> nat \<Rightarrow> string \<Rightarrow> nat \<times> string \<Rightarrow> Document" where
  "html_chunk md idx header ic =
     \<lparr>page_content = snd ic,
      metadata = AList.update ''header_type'' (PStr header)
                   (AList.update ''chunkno''
                      (PStr (str_nat (idx + 1) @ ''-'' @ str_nat (fst ic + 1))) md)\<rparr>"

text \<open>Lines 43-55: the loop over the enumerated sections, appending to \<open>chunked_docs\<close>.\<close>

fun html_sections_loop ::
  "text_splitter \<Rightarrow> pydict \<Rightarrow> (nat \<times> string \<times> string) list \<Rightarrow> Document list
     \<Rightarrow> exn + Document list" where
  "html_sections_loop section_splitter md [] chunked_docs = Inr chunked_docs"
| "html_sections_loop section_splitter md ((idx, header, text) # rest) chunked_docs =
     (case section_splitter text of
        Inl e \<Rightarrow> Inl e
      | Inr chunks \<Rightarrow>
          html_sections_loop section_splitter md rest
            (chunked_docs @ map (html_chunk md idx header) (enumerate 0 chunks)))"

text \<open>Lines 37-56: the loop over the documents, extending \<open>all_chunked_docs\<close>.\<close>

fun html_docs_loop ::
  "('soup, 'elem) bs4 \<Rightarrow> text_splitter \<Rightarrow> string list \<Rightarrow> Document list \<Rightarrow> Document list
     \<Rightarrow> exn + Document list" where
  "html_docs_loop lib section_splitter headers [] all_chunked_docs = Inr all_chunked_docs"
| "html_docs_loop lib section_splitter headers (doc # docs) all_chunked_docs =
     (case BeautifulSoup lib (page_content doc) of
        Inl e \<Rightarrow> Inl e
      | Inr soup \<Rightarrow>
          (case html_sections_loop section_splitter (metadata doc)
                  (enumerate 0 (sections lib soup headers)) [] of
             Inl e \<Rightarrow> Inl e
           | Inr chunked_docs \<Rightarrow>
               html_docs_loop lib section_splitter headers docs
                 (all_chunked_docs @ chunked_docs)))"

text \<open>Lines 29-58: the body of the \<open>try\<close> block.\<close>

definition html_splitter_body ::
  "('soup, 'elem) bs4 \<Rightarrow> recursive_ctor \<Rightarrow> Document list \<Rightarrow> int \<Rightarrow> int \<Rightarrow> string list
     \<Rightarrow> exn + Document list" where
  "html_splitter_body lib RecursiveCharacterTextSplitter docs chunk_size chunk_overlap
       headers_to_split_on =
     (case RecursiveCharacterTextSplitter chunk_size chunk_overlap of
        Inl e \<Rightarrow> Inl e
      | Inr section_splitter \<Rightarrow>
          html_docs_loop lib section_splitter headers_to_split_on docs [])"

text \<open>
  A method call yields the lines it printed and its outcome: the exception that reaches the
  caller, or the returned value.
\<close>

type_synonym 'a call_result = "string list \<times> (exn + 'a)"

text \<open>Lines 28-62: \<open>html_splitter\<close> with its handler.\<close>

definition html_splitter ::
  "('soup, 'elem) bs4 \<Rightarrow> recursive_ctor \<Rightarrow> Document list \<Rightarrow> int \<Rightarrow> int \<Rightarrow> string list
     \<Rightarrow> Document list call_result" where
  "html_splitter lib RecursiveCharacterTextSplitter docs chunk_size chunk_overlap
       headers_to_split_on =
     (case html_splitter_body lib RecursiveCharacterTextSplitter docs chunk_size chunk_overlap
             headers_to_split_on of
        Inr all_chunked_docs \<Rightarrow> ([], Inr all_chunked_docs)
      | Inl e \<Rightarrow> ([''Error in html_splitter: '' @ str e], Inr []))"

text \<open>Lines 87-90 and 126-129: the chunk document of the two text splitters.\<close>

definition text_chunk :: "pydict \<Rightarrow> nat \<times> string \<Rightarrow> Document" where
  "text_chunk md ic =
     \<lparr>page_content = snd ic,
      metadata = AList.update ''chunkno'' (PInt (int (fst ic) + 1)) md\<rparr>"

text \<open>
  Lines 84-93 and 123-132: the loop over the documents, the same text in
  \<open>recursive_text_splitter\<close> and \<open>character_text_splitter\<close>.
\<close>

fun text_docs_loop :: "text_splitter \<Rightarrow> Document list \<Rightarrow> Document list \<Rightarrow> exn + Document list" where
  "text_docs_loop text_splitter [] all_chunked_docs = Inr all_chunked_docs"
| "text_docs_loop text_splitter (doc # docs) all_chunked_docs =
     (case text_splitter (page_content doc) of
        Inl e \<Rightarrow> Inl e
      | Inr splits \<Rightarrow>
          text_docs_loop text_splitter docs
            (all_chunked_docs @ map (text_chunk (metadata doc)) (enumerate 0 splits)))"

definition recursive_text_splitter_body ::
  "recursive_ctor \<Rightarrow> Document list \<Rightarrow> int \<Rightarrow> int \<Rightarrow> exn + Document list" where
  "recursive_text_splitter_body RecursiveCharacterTextSplitter docs chunk_size chunk_overlap =
     (case RecursiveCharacterTextSplitter chunk_size chunk_overlap of
        Inl e \<Rightarrow> Inl e
      | Inr text_splitter \<Rightarrow> text_docs_loop text_splitter docs [])"

definition recursive_text_splitter ::
  "recursive_ctor \<Rightarrow> Document list \<Rightarrow> int \<Rightarrow> int \<Rightarrow> Document list call_result" where
  "recursive_text_splitter RecursiveCharacterTextSplitter docs chunk_size chunk_overlap =
     (case recursive_text_splitter_body RecursiveCharacterTextSplitter docs chunk_size
             chunk_overlap of
        Inr all_chunked_docs \<Rightarrow> ([], Inr all_chunked_docs)
      | Inl e \<Rightarrow> ([''Error in recursive_text_splitter: '' @ str e], Inr []))"

definition character_text_splitter_body ::
  "character_ctor \<Rightarrow> Document list \<Rightarrow> int \<Rightarrow> int \<Rightarrow> string \<Rightarrow> exn + Document list" where
  "character_text_splitter_body CharacterTextSplitter docs chunk_size chunk_overlap separator =
     (case CharacterTextSplitter separator chunk_size chunk_overlap of
        Inl e \<Rightarrow> Inl e
      | Inr text_splitter \<Rightarrow> text_docs_loop text_splitter docs [])"

definition character_text_splitter ::
  "character_ctor \<Rightarrow> Document list \<Rightarrow> int \<Rightarrow> int \<Rightarrow> string \<Rightarrow> Document list call_result" where
  "character_text_splitter CharacterTextSplitter docs chunk_size chunk_overlap separator =
     (case character_text_splitter_body CharacterTextSplitter docs chunk_size chunk_overlap
             separator of
        Inr all_chunked_docs \<Rightarrow> ([], Inr all_chunked_docs)
      | Inl e \<Rightarrow> ([''Error in character_text_splitter: '' @ str e], Inr []))"


section \<open>Loaders (src/loaders.py)\<close>

text \<open>
  The loader object has two attributes, both set to \<open>None\<close> by \<open>__init__\<close>
  (lines 23-24). A load method yields the object after the call, the lines it printed and
  its outcome. The third-party loader class of each method (constructor followed by
  \<open>load\<close>, or \<open>load_and_split\<close> for \<open>PyPDFLoader\<close>) is a parameter: it returns
  the documents or raises.
\<close>

record LangChainLoader =
  self_file_path :: "string option"
  self_url :: "string option"

definition LangChainLoader_init :: LangChainLoader where
  "LangChainLoader_init = \<lparr>self_file_path = None, self_url = None\<rparr>"

text \<open>What an f-string prints for an attribute that is \<open>None\<close> or a string.\<close>

definition format_attr :: "string option \<Rightarrow> string" where
  "format_attr a = (case a of None \<Rightarrow> ''None'' | Some s \<Rightarrow> s)"

type_synonym document_loader = "string \<Rightarrow> exn + Document list"

type_synonym load_result = "LangChainLoader \<times> Document list call_result"

text \<open>
  Lines 45, 73, 124, 153, 178: the Not-Found line; it formats \<open>self.file_path\<close>, not the
  argument of the call.
\<close>

definition not_found_line :: "LangChainLoader \<Rightarrow> string" where
  "not_found_line self =
     ''Error: The file '' @ quote @ format_attr (self_file_path self) @ quote @ '' was not found.''"

definition load_as_textfile :: "document_loader \<Rightarrow> LangChainLoader \<Rightarrow> string \<Rightarrow> load_result" where
  "load_as_textfile TextLoader self file_path =
     (case TextLoader file_path of
        Inr documents \<Rightarrow> (self, [], Inr documents)
      | Inl e \<Rightarrow>
          (if exn_class e = FileNotFoundError
           then (self, [not_found_line self], Inl e)
           else (self, [''An error occurred while loading the text file: '' @ str e], Inl e)))"

definition load_as_csv :: "document_loader \<Rightarrow> LangChainLoader \<Rightarrow> string \<Rightarrow> load_result" where
  "load_as_csv CSVLoader self file_path =
     (case CSVLoader file_path of
        Inr documents \<Rightarrow> (self, [], Inr documents)
      | Inl e \<Rightarrow>
          (if exn_class e = FileNotFoundError
           then (self, [not_found_line self], Inl e)
           else (self, [''An error occurred while loading the CSV file: '' @ str e], Inl e)))"

definition load_as_csv_with_source_column ::
  "(string \<Rightarrow> string \<Rightarrow> exn + Document list) \<Rightarrow> LangChainLoader \<Rightarrow> string \<Rightarrow> string
     \<Rightarrow> load_result" where
  "load_as_csv_with_source_column LangCSVLoader self file_path source_column =
     (case LangCSVLoader file_path source_column of
        Inr documents \<Rightarrow> (self, [], Inr documents)
      | Inl e \<Rightarrow>
          (if exn_class e = FileNotFoundError
           then (self, [''Error: '' @ str e], Inl e)
           else (self, [''An error occurred while loading the CSV file with source column: ''
                          @ str e], Inl e)))"

definition load_as_html :: "document_loader \<Rightarrow> LangChainLoader \<Rightarrow> string \<Rightarrow> load_result" where
  "load_as_html BSHTMLLoader self file_path =
     (case BSHTMLLoader file_path of
        Inr documents \<Rightarrow> (self, [], Inr documents)
      | Inl e \<Rightarrow>
          (if exn_class e = FileNotFoundError
           then (self, [not_found_line self], Inl e)
           else (self, [''An error occurred while loading the HTML file: '' @ str e], Inl e)))"

definition load_as_json :: "document_loader \<Rightarrow> LangChainLoader \<Rightarrow> string \<Rightarrow> load_result" where
  "load_as_json JSONLoader self file_path =
     (case JSONLoader file_path of
        Inr documents \<Rightarrow> (self, [], Inr documents)
      | Inl e \<Rightarrow>
          (if exn_class e = FileNotFoundError
           then (self, [not_found_line self], Inl e)
           else (self, [''An error occurred while loading the JSON file: '' @ str e], Inl e)))"

definition load_as_pdf :: "document_loader \<Rightarrow> LangChainLoader \<Rightarrow> string \<Rightarrow> load_result" where
  "load_as_pdf PyPDFLoader self file_path =
     (case PyPDFLoader file_path of
        Inr documents \<Rightarrow> (self, [], Inr documents)
      | Inl e \<Rightarrow>
          (if exn_class e = FileNotFoundError
           then (self, [not_found_line self], Inl e)
           else (self, [''An error occurred while loading the PDF file: '' @ str e], Inl e)))"

text \<open>Lines 184-358: the remaining methods have the single handler \<open>except Exception\<close>.\<close>

definition load_with_pymupdf :: "document_loader \<Rightarrow> LangChainLoader \<Rightarrow> string \<Rightarrow> load_result" where
  "load_with_pymupdf PyMuPDFLoader self file_path =
     (case PyMuPDFLoader file_path of
        Inr documents \<Rightarrow> (self, [], Inr documents)
      | Inl e \<Rightarrow>
          (self, [''An error occurred while loading the PDF with PyMuPDFLoader: '' @ str e],
           Inl e))"

definition load_with_unstructuredpdf ::
  "document_loader \<Rightarrow> LangChainLoader \<Rightarrow> string \<Rightarrow> load_result" where
  "load_with_unstructuredpdf UnstructuredPDFLoader self file_path =
     (case UnstructuredPDFLoader file_path of
        Inr documents \<Rightarrow> (self, [], Inr documents)
      | Inl e \<Rightarrow>
          (self, [''An error occurred while loading the PDF with UnstructuredPDFLoader: ''
                    @ str e], Inl e))"

definition load_with_pypdfium2 :: "document_loader \<Rightarrow> LangChainLoader \<Rightarrow> string \<Rightarrow> load_result" where
  "load_with_pypdfium2 PyPDFium2Loader self file_path =
     (case PyPDFium2Loader file_path of
        Inr documents \<Rightarrow> (self, [], Inr documents)
      | Inl e \<Rightarrow>
          (self, [''An error occurred while loading the PDF with PyPDFium2Loader: '' @ str e],
           Inl e))"

definition load_with_pdfminer :: "document_loader \<Rightarrow> LangChainLoader \<Rightarrow> string \<Rightarrow> load_result" where
  "load_with_pdfminer PDFMinerLoader self file_path =
     (case PDFMinerLoader file_path of
        Inr documents \<Rightarrow> (self, [], Inr documents)
      | Inl e \<Rightarrow>
          (self, [''An error occurred while loading the PDF with PDFMinerLoader: '' @ str e],
           Inl e))"

definition load_directory_pdfs :: "document_loader \<Rightarrow> LangChainLoader \<Rightarrow> string \<Rightarrow> load_result" where
  "load_directory_pdfs PyPDFDirectoryLoader self directory_path =
     (case PyPDFDirectoryLoader directory_path of
        Inr documents \<Rightarrow> (self, [], Inr documents)
      | Inl e \<Rightarrow>
          (self, [''An error occurred while loading PDFs from directory: '' @ str e], Inl e))"

definition load_with_pdfplumber :: "document_loader \<Rightarrow> LangChainLoader \<Rightarrow> string \<Rightarrow> load_result" where
  "load_with_pdfplumber PDFPlumberLoader self file_path =
     (case PDFPlumberLoader file_path of
        Inr documents \<Rightarrow> (self, [], Inr documents)
      | Inl e \<Rightarrow>
          (self, [''An error occurred while loading the PDF with PDFPlumberLoader: '' @ str e],
           Inl e))"

definition load_online_pdf :: "document_loader \<Rightarrow> LangChainLoader \<Rightarrow> string \<Rightarrow> load_result" where
  "load_online_pdf OnlinePDFLoader self url =
     (case OnlinePDFLoader url of
        Inr documents \<Rightarrow> (self, [], Inr documents)
      | Inl e \<Rightarrow>
          (self, [''An error occurred while loading the online PDF: '' @ str e], Inl e))"

definition fetch_data_from_url :: "document_loader \<Rightarrow> LangChainLoader \<Rightarrow> string \<Rightarrow> load_result" where
  "fetch_data_from_url WebBaseLoader self url =
     (case WebBaseLoader url of
        Inr documents \<Rightarrow> (self, [], Inr documents)
      | Inl e \<Rightarrow>
          (self, [''An error occurred while fetching data from the URL: '' @ str e], Inl e))"


section \<open>Vector-store adapters (src/pinecon.py, src/qdrant.py)\<close>

text \<open>
  The adapters talk to a remote service through a client library. The model threads a
  world through every call: the state of the remote service, the requests sent to it so
  far, and the lines printed. The client library is a parameter: each of its calls takes
  the service state and returns a value or raises, with the new service state.
\<close>

datatype Distance = COSINE | EUCLID | DOT | MANHATTAN

record VectorParams =
  size_param :: int
  distance :: Distance

datatype 'emb request =
    Pinecone_client string
  | Pc_list_indexes
  | Pc_create_index string int string string string
  | Pc_delete_index string
  | Pc_Index string
  | Pc_index_delete string string bool
  | Pvs_from_documents "Document list" 'emb string "string option"
  | Pvs_from_existing_index 'emb string "string option"
  | Qvs_from_documents "Document list" 'emb string bool string string
  | Qdrant_client string string
  | Qdrant_store string 'emb
  | Qc_delete_collection string
  | Qc_create_collection string VectorParams

record ('s, 'emb) world =
  svc :: 's
  trace :: "'emb request list"
  stdout :: "string list"

text \<open>What a method returns: a string, a vector-store handle, or \<open>None\<close>.\<close>

datatype 'store retval = RStr string | RStore 'store | RNone

type_synonym ('s, 'emb, 'a) action = "('s, 'emb) world \<Rightarrow> (exn + 'a) \<times> ('s, 'emb) world"

definition py_return :: "'a \<Rightarrow> ('s, 'emb, 'a) action" where
  "py_return v w = (Inr v, w)"

text \<open>Sequencing of statements: an exception ends the block.\<close>

definition and_then :: "('s, 'emb, 'a) action \<Rightarrow> ('a \<Rightarrow> ('s, 'emb, 'b) action) \<Rightarrow> ('s, 'emb, 'b) action" where
  "and_then m f w = (case m w of (Inl e, w') \<Rightarrow> (Inl e, w') | (Inr x, w') \<Rightarrow> f x w')"

text \<open>\<open>try: body except Exception as ex: handler\<close>.\<close>

definition try_except ::
  "('s, 'emb, 'a) action \<Rightarrow> (exn \<Rightarrow> ('s, 'emb, 'a) action) \<Rightarrow> ('s, 'emb, 'a) action" where
  "try_except body handler w =
     (case body w of (Inl ex, w') \<Rightarrow> handler ex w' | (Inr v, w') \<Rightarrow> (Inr v, w'))"

definition py_print :: "string \<Rightarrow> ('s, 'emb, unit) action" where
  "py_print line w = (Inr (), w\<lparr>stdout := stdout w @ [line]\<rparr>)"

text \<open>A call of the client library: the request is recorded, the library answers.\<close>

definition remote :: "'emb request \<Rightarrow> ('s \<Rightarrow> (exn + 'a) \<times> 's) \<Rightarrow> ('s, 'emb, 'a) action" where
  "remote req call w =
     (case call (svc w) of (r, s') \<Rightarrow> (r, w\<lparr>svc := s', trace := trace w @ [req]\<rparr>))"

subsection \<open>Service A: PineconeInsertRetrieval\<close>

text \<open>
  The response object of \<open>index.delete\<close>, as \<open>delete_name_spaces\<close> sees it: whether
  it compares equal to the empty dict, and the text \<open>f"{response}"\<close> gives for it. Both
  are operations of the library's object, so they come with the response.
\<close>

record delete_response =
  equals_empty_dict :: bool
  formatted :: string

record ('s, 'emb, 'store) pinecone_sdk =
  Pinecone :: "string \<Rightarrow> 's \<Rightarrow> (exn + unit) \<times> 's"
  pc_list_indexes_names :: "'s \<Rightarrow> (exn + string list) \<times> 's"
  pc_create_index :: "string \<Rightarrow> int \<Rightarrow> string \<Rightarrow> string \<Rightarrow> string \<Rightarrow> 's \<Rightarrow> (exn + unit) \<times> 's"
  pc_delete_index :: "string \<Rightarrow> 's \<Rightarrow> (exn + unit) \<times> 's"
  pc_Index :: "string \<Rightarrow> 's \<Rightarrow> (exn + unit) \<times> 's"
  pc_index_delete :: "string \<Rightarrow> string \<Rightarrow> bool \<Rightarrow> 's \<Rightarrow> (exn + delete_response) \<times> 's"
  PineconeVectorStore_from_documents ::
    "Document list \<Rightarrow> 'emb \<Rightarrow> string \<Rightarrow> string option \<Rightarrow> 's \<Rightarrow> (exn + 'store) \<times> 's"
  PineconeVectorStore_from_existing_index ::
    "'emb \<Rightarrow> string \<Rightarrow> string option \<Rightarrow> 's \<Rightarrow> (exn + 'store) \<times> 's"

record PineconeInsertRetrieval =
  api_key :: string

text \<open>Line 25 and its copies: \<open>pc = Pinecone(api_key=self.api_key)\<close>.\<close>

definition new_pc ::
  "('s, 'emb, 'store) pinecone_sdk \<Rightarrow> PineconeInsertRetrieval \<Rightarrow> ('s, 'emb, unit) action" where
  "new_pc sdk self = remote (Pinecone_client (api_key self)) (Pinecone sdk (api_key self))"

text \<open>Lines 25-30: no handler; the final \<open>else\<close> is the implicit \<open>return None\<close>.\<close>

definition check_index ::
  "('s, 'emb, 'store) pinecone_sdk \<Rightarrow> PineconeInsertRetrieval \<Rightarrow> string
     \<Rightarrow> ('s, 'emb, 'store retval) action" where
  "check_index sdk self index =
     and_then (new_pc sdk self) (\<lambda>pc.
     and_then (remote Pc_list_indexes (pc_list_indexes_names sdk)) (\<lambda>indexes.
       if index \<notin> set indexes then py_return (RStr ''Not Found index'')
       else if index \<in> set indexes
         then py_return (RStr (''Your index name '' @ index @ '' Found''))
       else py_return RNone))"

text \<open>Lines 44-56: the \<open>try\<close> block of \<open>create_index\<close>.\<close>

definition create_index_body ::
  "('s, 'emb, 'store) pinecone_sdk \<Rightarrow> PineconeInsertRetrieval \<Rightarrow> string \<Rightarrow> int
     \<Rightarrow> ('s, 'emb, 'store retval) action" where
  "create_index_body sdk self index_name dimensions =
     and_then (new_pc sdk self) (\<lambda>pc.
     and_then (remote (Pc_create_index index_name dimensions ''cosine'' ''aws'' ''us-east-1'')
                 (pc_create_index sdk index_name dimensions ''cosine'' ''aws'' ''us-east-1'')) (\<lambda>_.
     and_then (py_print (''Your index '' @ index_name @ '' created successfully'')) (\<lambda>_.
       py_return (RStr index_name))))"

definition create_index ::
  "('s, 'emb, 'store) pinecone_sdk \<Rightarrow> PineconeInsertRetrieval \<Rightarrow> string \<Rightarrow> int
     \<Rightarrow> ('s, 'emb, 'store retval) action" where
  "create_index sdk self index_name dimensions =
     try_except (create_index_body sdk self index_name dimensions)
       (\<lambda>ex. py_return (RStr (''Sorry, try again. '' @ str ex)))"

text \<open>Lines 71-76: the \<open>try\<close> block of \<open>delete_index_name\<close>.\<close>

definition delete_index_name_body ::
  "('s, 'emb, 'store) pinecone_sdk \<Rightarrow> PineconeInsertRetrieval \<Rightarrow> string
     \<Rightarrow> ('s, 'emb, 'store retval) action" where
  "delete_index_name_body sdk self index_name =
     and_then (new_pc sdk self) (\<lambda>pc.
     and_then (remote Pc_list_indexes (pc_list_indexes_names sdk)) (\<lambda>indexes.
       if index_name \<notin> set indexes
       then py_return (RStr (''Index '' @ quote @ index_name @ quote @ '' does not exist.''))
       else
         and_then (remote (Pc_delete_index index_name) (pc_delete_index sdk index_name)) (\<lambda>_.
           py_return (RStr (''Index '' @ quote @ index_name @ quote @ '' deleted successfully.'')))))"

definition delete_index_name ::
  "('s, 'emb, 'store) pinecone_sdk \<Rightarrow> PineconeInsertRetrieval \<Rightarrow> string
     \<Rightarrow> ('s, 'emb, 'store retval) action" where
  "delete_index_name sdk self index_name =
     try_except (delete_index_name_body sdk self index_name)
       (\<lambda>ex. py_return (RStr (''Failed to delete index '' @ quote @ index_name @ quote @ '': ''
                                @ str ex)))"











subsection \<open>Service B: QdrantInsertRetrievalAll\<close>

record ('s, 'emb, 'store) qdrant_sdk =
  QdrantVectorStore_from_documents ::
    "Document list \<Rightarrow> 'emb \<Rightarrow> string \<Rightarrow> bool \<Rightarrow> string \<Rightarrow> string \<Rightarrow> 's \<Rightarrow> (exn + 'store) \<times> 's"
  QdrantClient :: "string \<Rightarrow> string \<Rightarrow> 's \<Rightarrow> (exn + unit) \<times> 's"
  Qdrant :: "string \<Rightarrow> 'emb \<Rightarrow> 's \<Rightarrow> (exn + 'store) \<times> 's"
  qc_delete_collection :: "string \<Rightarrow> 's \<Rightarrow> (exn + bool) \<times> 's"
  qc_create_collection :: "string \<Rightarrow> VectorParams \<Rightarrow> 's \<Rightarrow> (exn + bool) \<times> 's"

record QdrantInsertRetrievalAll =
  qdrant_url :: string
  qdrant_api_key :: string

text \<open>Lines 56-59 and their copies: \<open>QdrantClient(url=self.url, api_key=self.api_key)\<close>.\<close>

definition new_qdrant_client ::
  "('s, 'emb, 'store) qdrant_sdk \<Rightarrow> QdrantInsertRetrievalAll \<Rightarrow> ('s, 'emb, unit) action" where
  "new_qdrant_client sdk self =
     remote (Qdrant_client (qdrant_url self) (qdrant_api_key self))
       (QdrantClient sdk (qdrant_url self) (qdrant_api_key self))"

text \<open>Lines 33-42. None of the four methods of this class has a handler.\<close>

definition insertion ::
  "('s, 'emb, 'store) qdrant_sdk \<Rightarrow> QdrantInsertRetrievalAll \<Rightarrow> Document list \<Rightarrow> 'emb \<Rightarrow> string
     \<Rightarrow> ('s, 'emb, 'store retval) action" where
  "insertion sdk self text embeddings collection_name =
     and_then (remote (Qvs_from_documents text embeddings (qdrant_url self) True
                         (qdrant_api_key self) collection_name)
                 (QdrantVectorStore_from_documents sdk text embeddings (qdrant_url self) True
                    (qdrant_api_key self) collection_name)) (\<lambda>qdrant.
     and_then (py_print ''Insertion successful'') (\<lambda>_.
       py_return (RStore qdrant)))"

text \<open>Lines 56-61.\<close>

definition retrieval ::
  "('s, 'emb, 'store) qdrant_sdk \<Rightarrow> QdrantInsertRetrievalAll \<Rightarrow> string \<Rightarrow> 'emb
     \<Rightarrow> ('s, 'emb, 'store retval) action" where
  "retrieval sdk self collection_name embeddings =
     and_then (new_qdrant_client sdk self) (\<lambda>qdrant_client.
     and_then (remote (Qdrant_store collection_name embeddings)
                 (Qdrant sdk collection_name embeddings)) (\<lambda>qdrant_store.
       py_return (RStore qdrant_store)))"

text \<open>Lines 74-79.\<close>

definition delete_collection ::
  "('s, 'emb, 'store) qdrant_sdk \<Rightarrow> QdrantInsertRetrievalAll \<Rightarrow> string
     \<Rightarrow> ('s, 'emb, 'store retval) action" where
  "delete_collection sdk self collection_name =
     and_then (new_qdrant_client sdk self) (\<lambda>qdrant_client.
     and_then (remote (Qc_delete_collection collection_name)
                 (qc_delete_collection sdk collection_name)) (\<lambda>_.
       py_return (RStr collection_name)))"

text \<open>Lines 92-101.\<close>

definition create_collection ::
  "('s, 'emb, 'store) qdrant_sdk \<Rightarrow> QdrantInsertRetrievalAll \<Rightarrow> string
     \<Rightarrow> ('s, 'emb, 'store retval) action" where
  "create_collection sdk self collection_name =
     and_then (new_qdrant_client sdk self) (\<lambda>qdrant_client.
     and_then (remote (Qc_create_collection collection_name
                         \<lparr>size_param = 384, distance = COSINE\<rparr>)
                 (qc_create_collection sdk collection_name
                    \<lparr>size_param = 384, distance = COSINE\<rparr>)) (\<lambda>_.
     and_then (py_print (''Your collection '' @ collection_name @ '' created successfully''))
       (\<lambda>_.
       py_return (RStr collection_name))))"


section \<open>Properties stated by the specification\<close>

text \<open>The tag a chunk of the HTML splitter was cut from, as its metadata records it.\<close>

definition header_type_of :: "Document \<Rightarrow> pyval option" where
  "header_type_of c = map_of (metadata c) ''header_type''"

text \<open>
  Grouping by tag in the order of the tag list: a chunk of an earlier-listed tag stands
  before every chunk of a later-listed tag.
\<close>

definition earlier_tags_first :: "string list \<Rightarrow> Document list \<Rightarrow> bool" where
  "earlier_tags_first headers out \<longleftrightarrow>
     (\<forall>i j a b. i < length out \<and> j < length out \<and> a < b \<and> b < length headers \<and>
        header_type_of (out ! i) = Some (PStr (headers ! a)) \<and>
        header_type_of (out ! j) = Some (PStr (headers ! b)) \<longrightarrow> i < j)"

text \<open>
  Chunk numbering per source document: the output is one block of chunks per source
  document, in the order of the documents; a block holds the chunks of its document in the
  order the text splitter returned them, numbered from 1 under the key \<open>chunkno\<close>, and
  every other key has the value the source document gives it.
\<close>

definition numbered_per_document :: "text_splitter \<Rightarrow> Document list \<Rightarrow> Document list \<Rightarrow> bool" where
  "numbered_per_document split_text docs out \<longleftrightarrow>
     (\<exists>blocks. out = concat blocks \<and> length blocks = length docs \<and>
        (\<forall>k<length docs.
           split_text (page_content (docs ! k)) = Inr (map page_content (blocks ! k)) \<and>
           (\<forall>j<length (blocks ! k).
              map_of (metadata (blocks ! k ! j)) ''chunkno'' = Some (PInt (int j + 1)) \<and>
              (\<forall>key. key \<noteq> ''chunkno'' \<longrightarrow>
                 map_of (metadata (blocks ! k ! j)) key = map_of (metadata (docs ! k)) key))))"

text \<open>A chunk agrees with a source document on every key outside a set of written keys.\<close>

definition keeps_other_keys :: "string set \<Rightarrow> Document \<Rightarrow> Document \<Rightarrow> bool" where
  "keeps_other_keys written d c \<longleftrightarrow>
     (\<forall>key. key \<notin> written \<longrightarrow> map_of (metadata c) key = map_of (metadata d) key)"

text \<open>
  Metadata of the HTML chunks: the output is one block of chunks per source document, in
  the order of the documents, and the block of a document is one group of chunks per
  section of that document, in the order of \<open>sections\<close>. The group of section number
  \<open>i\<close> (counted from 0) holds the chunks the splitter cut from the text of that section;
  chunk number \<open>j\<close> of the group has \<open>"<i+1>-<j+1>"\<close> under \<open>chunkno\<close>, the tag of
  the section under \<open>header_type\<close>, and under every other key what its own source
  document has there.
\<close>

definition tagged_per_document ::
  "('soup, 'elem) bs4 \<Rightarrow> text_splitter \<Rightarrow> string list \<Rightarrow> Document list \<Rightarrow> Document list
     \<Rightarrow> bool" where
  "tagged_per_document lib split_text headers docs out \<longleftrightarrow>
     (\<exists>blocks. out = concat blocks \<and> length blocks = length docs \<and>
        (\<forall>k<length docs. \<exists>soup groups.
           BeautifulSoup lib (page_content (docs ! k)) = Inr soup \<and>
           blocks ! k = concat groups \<and>
           length groups = length (sections lib soup headers) \<and>
           (\<forall>i<length (sections lib soup headers).
              split_text (snd (sections lib soup headers ! i))
                = Inr (map page_content (groups ! i)) \<and>
              (\<forall>j<length (groups ! i).
                 map_of (metadata (groups ! i ! j)) ''chunkno''
                   = Some (PStr (str_nat (i + 1) @ ''-'' @ str_nat (j + 1))) \<and>
                 map_of (metadata (groups ! i ! j)) ''header_type''
                   = Some (PStr (fst (sections lib soup headers ! i))) \<and>
                 keeps_other_keys {''chunkno'', ''header_type''} (docs ! k) (groups ! i ! j)))))"

text \<open>
  A load method logs and raises again: when the library raises \<open>e\<close>, the method prints
  one line, the first given line if \<open>e\<close> is a \<open>FileNotFoundError\<close> and the second
  otherwise, and \<open>e\<close> itself reaches the caller; when the library returns, the method
  prints nothing and returns the library's documents. The loader object is left as it was.
\<close>

definition logs_and_reraises ::
  "(document_loader \<Rightarrow> LangChainLoader \<Rightarrow> string \<Rightarrow> load_result)
     \<Rightarrow> (LangChainLoader \<Rightarrow> exn \<Rightarrow> string) \<Rightarrow> (exn \<Rightarrow> string) \<Rightarrow> bool" where
  "logs_and_reraises load_method not_found_diagnostic other_diagnostic \<longleftrightarrow>
     (\<forall>library self path.
        case library path of
          Inl e \<Rightarrow>
            load_method library self path =
              (self,
               [if exn_class e = FileNotFoundError then not_found_diagnostic self e
                else other_diagnostic e],
               Inl e)
        | Inr documents \<Rightarrow> load_method library self path = (self, [], Inr documents))"

section \<open>Stand-ins for the third-party libraries, for evaluating the model\<close>

text \<open>
  The theorems hold for every library behaviour. To run the model on concrete inputs the
  following small stand-ins are used: a splitter that cuts a text at blanks, an HTML parser
  that looks the page up in a table of already parsed pages, a file system given as a
  table (with a second reading of it for the PDF loaders), and two in-memory services.
\<close>

fun split_words :: "string \<Rightarrow> string \<Rightarrow> string list" where
  "split_words cur [] = (if cur = [] then [] else [cur])"
| "split_words cur (c # cs) =
     (if c = CHR '' '' then (if cur = [] then split_words [] cs else cur # split_words [] cs)
      else split_words (cur @ [c]) cs)"

definition stub_RecursiveCharacterTextSplitter :: recursive_ctor where
  "stub_RecursiveCharacterTextSplitter chunk_size chunk_overlap =
     (if chunk_overlap > chunk_size
      then Inl (Exn OtherError ''Got a larger chunk overlap than chunk size'')
      else Inr (\<lambda>text. Inr (split_words [] text)))"

definition stub_CharacterTextSplitter :: character_ctor where
  "stub_CharacterTextSplitter separator chunk_size chunk_overlap =
     stub_RecursiveCharacterTextSplitter chunk_size chunk_overlap"

definition stub_bs4 ::
  "(string \<times> (string \<times> string) list) list \<Rightarrow> ((string \<times> string) list, string \<times> string) bs4" where
  "stub_bs4 pages =
     \<lparr>BeautifulSoup = (\<lambda>content. case map_of pages content of
                          None \<Rightarrow> Inl (Exn OtherError ''not a known page'')
                        | Some elements \<Rightarrow> Inr elements),
      find_all = (\<lambda>soup tag. filter (\<lambda>element. fst element = tag) soup),
      get_text = snd\<rparr>"

definition stub_file_loader :: "(string \<times> string option) list \<Rightarrow> document_loader" where
  "stub_file_loader files path =
     (case map_of files path of
        None \<Rightarrow> Inl (Exn FileNotFoundError
                  (''[Errno 2] No such file or directory: '' @ path))
      | Some None \<Rightarrow> Inl (Exn OtherError (''could not parse '' @ path))
      | Some (Some content) \<Rightarrow>
          Inr [\<lparr>page_content = content, metadata = [(''source'', PStr path)]\<rparr>])"

text \<open>
  The PDF loader classes check the path when they are constructed and reject a path that
  is neither a file nor a URL with a \<open>ValueError\<close>.
\<close>

definition stub_pdf_loader :: "(string \<times> string) list \<Rightarrow> document_loader" where
  "stub_pdf_loader files path =
     (case map_of files path of
        None \<Rightarrow> Inl (Exn OtherError (''File path '' @ path @ '' is not a valid file or url''))
      | Some content \<Rightarrow>
          Inr [\<lparr>page_content = content, metadata = [(''source'', PStr path), (''page'', PInt 0)]\<rparr>])"

text \<open>
  The state of an in-memory service is the list of existing names, or \<open>None\<close> when the
  service cannot be reached; then every request raises. An embedding model is given by its
  name, a vector-store handle by the names it is bound to.
\<close>

definition when_up ::
  "string list option \<Rightarrow> (string list \<Rightarrow> (exn + 'a) \<times> string list)
     \<Rightarrow> (exn + 'a) \<times> string list option" where
  "when_up s f =
     (case s of
        None \<Rightarrow> (Inl (Exn OtherError ''connection refused''), None)
      | Some names \<Rightarrow> (case f names of (r, names') \<Rightarrow> (r, Some names')))"

definition memory_pinecone ::
  "(string list option, string, string \<times> string option) pinecone_sdk" where
  "memory_pinecone =
     \<lparr>Pinecone = (\<lambda>key s.
         if key = [] then (Inl (Exn OtherError ''no API key given''), s) else (Inr (), s)),
      pc_list_indexes_names = (\<lambda>s. when_up s (\<lambda>names. (Inr names, names))),
      pc_create_index = (\<lambda>name dimension metric cloud region s. when_up s (\<lambda>names.
         if name \<in> set names
         then (Inl (Exn OtherError ''(409) Conflict: index already exists''), names)
         else (Inr (), names @ [name]))),
      pc_delete_index = (\<lambda>name s. when_up s (\<lambda>names.
         if name \<in> set names then (Inr (), removeAll name names)
         else (Inl (Exn OtherError ''(404) Not Found''), names))),
      pc_Index = (\<lambda>name s. when_up s (\<lambda>names. (Inr (), names))),
      pc_index_delete = (\<lambda>name name_space delete_all s. when_up s (\<lambda>names.
         (Inr \<lparr>equals_empty_dict = True, formatted = ''{}''\<rparr>, names))),
      PineconeVectorStore_from_documents = (\<lambda>documents embeddings name name_space s.
         when_up s (\<lambda>names.
           if name \<in> set names then (Inr (name, name_space), names)
           else (Inl (Exn OtherError ''(404) Not Found''), names))),
      PineconeVectorStore_from_existing_index = (\<lambda>embeddings name name_space s.
         when_up s (\<lambda>names. (Inr (name, name_space), names)))\<rparr>"

definition memory_qdrant :: "(string list option, string, string) qdrant_sdk" where
  "memory_qdrant =
     \<lparr>QdrantVectorStore_from_documents = (\<lambda>documents embeddings url prefer_grpc key name s.
         when_up s (\<lambda>names. (Inr name, if name \<in> set names then names else names @ [name]))),
      QdrantClient = (\<lambda>url key s.
         if url = [] then (Inl (Exn OtherError ''no URL given''), s) else (Inr (), s)),
      Qdrant = (\<lambda>name embeddings s. when_up s (\<lambda>names. (Inr name, names))),
      qc_delete_collection = (\<lambda>name s. when_up s (\<lambda>names.
         (Inr (name \<in> set names), removeAll name names))),
      qc_create_collection = (\<lambda>name params s. when_up s (\<lambda>names.
         if name \<in> set names
         then (Inl (Exn OtherError ''(409) Conflict: collection already exists''), names)
         else (Inr True, names @ [name])))\<rparr>"

section \<open>The splitters never raise\<close>

text \<open>
  C3. Whatever the libraries do, each of the three splitters returns a list to its caller:
  when the \<open>try\<close> block raises an exception \<open>e\<close>, the splitter prints one
  diagnostic line naming the splitter and \<open>e\<close>, and returns the empty list.
\<close>

theorem splitters_catch_every_exception:
  "(\<exists>chunks. snd (html_splitter lib rc docs cs co hs) = Inr chunks) \<and>
   (\<exists>chunks. snd (recursive_text_splitter rc docs cs co) = Inr chunks) \<and>
   (\<exists>chunks. snd (character_text_splitter cc docs cs co sep) = Inr chunks) \<and>
   (html_splitter_body lib rc docs cs co hs = Inl e \<longrightarrow>
      html_splitter lib rc docs cs co hs = ([''Error in html_splitter: '' @ str e], Inr [])) \<and>
   (recursive_text_splitter_body rc docs cs co = Inl e \<longrightarrow>
      recursive_text_splitter rc docs cs co =
        ([''Error in recursive_text_splitter: '' @ str e], Inr [])) \<and>
   (character_text_splitter_body cc docs cs co sep = Inl e \<longrightarrow>
      character_text_splitter cc docs cs co sep =
        ([''Error in character_text_splitter: '' @ str e], Inr []))"
  by (simp add: html_splitter_def recursive_text_splitter_def character_text_splitter_def
        split: sum.splits)

theorem splitters_catch_every_exception_witness:
  "html_splitter_body (stub_bs4 []) stub_RecursiveCharacterTextSplitter
       [\<lparr>page_content = ''a b'', metadata = []\<rparr>] 5 10 [''h1''] =
     Inl (Exn OtherError ''Got a larger chunk overlap than chunk size'') \<and>
   html_splitter (stub_bs4 []) stub_RecursiveCharacterTextSplitter
       [\<lparr>page_content = ''a b'', metadata = []\<rparr>] 5 10 [''h1''] =
     ([''Error in html_splitter: Got a larger chunk overlap than chunk size''], Inr []) \<and>
   recursive_text_splitter_body stub_RecursiveCharacterTextSplitter
       [\<lparr>page_content = ''a b'', metadata = []\<rparr>] 5 10 =
     Inl (Exn OtherError ''Got a larger chunk overlap than chunk size'') \<and>
   recursive_text_splitter stub_RecursiveCharacterTextSplitter
       [\<lparr>page_content = ''a b'', metadata = []\<rparr>] 5 10 =
     ([''Error in recursive_text_splitter: Got a larger chunk overlap than chunk size''], Inr []) \<and>
   character_text_splitter_body stub_CharacterTextSplitter
       [\<lparr>page_content = ''a b'', metadata = []\<rparr>] 5 10 '' '' =
     Inl (Exn OtherError ''Got a larger chunk overlap than chunk size'') \<and>
   character_text_splitter stub_CharacterTextSplitter
       [\<lparr>page_content = ''a b'', metadata = []\<rparr>] 5 10 '' '' =
     ([''Error in character_text_splitter: Got a larger chunk overlap than chunk size''], Inr [])"
proof -
  let ?e = "Exn OtherError ''Got a larger chunk overlap than chunk size''"
  let ?d = "[\<lparr>page_content = ''a b'', metadata = []\<rparr>]"
  let ?t = "[\<lparr>page_content = ''a b'', metadata = []\<rparr>]"
  have h: "html_splitter_body (stub_bs4 []) stub_RecursiveCharacterTextSplitter ?d 5 10 [''h1'']
             = Inl ?e"
    by (simp add: html_splitter_body_def stub_RecursiveCharacterTextSplitter_def)
  have r: "recursive_text_splitter_body stub_RecursiveCharacterTextSplitter ?t 5 10 = Inl ?e"
    by (simp add: recursive_text_splitter_body_def stub_RecursiveCharacterTextSplitter_def)
  have c: "character_text_splitter_body stub_CharacterTextSplitter ?t 5 10 '' '' = Inl ?e"
    by (simp add: character_text_splitter_body_def stub_CharacterTextSplitter_def
          stub_RecursiveCharacterTextSplitter_def)
  from splitters_catch_every_exception
         [where lib = "stub_bs4 []" and rc = stub_RecursiveCharacterTextSplitter
            and docs = ?t and cs = 5 and co = 10 and hs = "[''h1'']"
            and cc = stub_CharacterTextSplitter and sep = "'' ''" and e = ?e] h r c
  show ?thesis by simp
qed


section \<open>Chunk numbering of the text splitters\<close>

lemma text_chunk_block:
  "map page_content (map (text_chunk md) (enumerate 0 splits)) = splits"
  by (simp add: text_chunk_def comp_def map_snd_enumerate)

lemma text_chunk_nth:
  assumes "j < length splits"
  shows "map (text_chunk md) (enumerate 0 splits) ! j = text_chunk md (j, splits ! j)"
  using assms by (simp add: nth_enumerate_eq)

lemma text_chunk_chunkno:
  "map_of (metadata (text_chunk md (j, s))) ''chunkno'' = Some (PInt (int j + 1))"
  by (simp add: text_chunk_def update_conv)

lemma text_chunk_other:
  "key \<noteq> ''chunkno'' \<Longrightarrow> map_of (metadata (text_chunk md (j, s))) key = map_of md key"
  by (simp add: text_chunk_def update_conv)

lemma text_docs_loop_blocks:
  "text_docs_loop st docs acc = Inr out \<Longrightarrow>
     \<exists>blocks. out = acc @ concat blocks \<and>
       list_all2 (\<lambda>d b. \<exists>splits. st (page_content d) = Inr splits \<and>
                     b = map (text_chunk (metadata d)) (enumerate 0 splits)) docs blocks"
proof (induction docs arbitrary: acc out)
  case Nil
  then show ?case by simp
next
  case (Cons d docs)
  from Cons.prems obtain splits where s: "st (page_content d) = Inr splits"
    and r: "text_docs_loop st docs (acc @ map (text_chunk (metadata d)) (enumerate 0 splits)) = Inr out"
    by (auto split: sum.splits)
  from Cons.IH [OF r] obtain blocks where
    o: "out = (acc @ map (text_chunk (metadata d)) (enumerate 0 splits)) @ concat blocks"
    and a: "list_all2 (\<lambda>d b. \<exists>splits. st (page_content d) = Inr splits \<and>
                     b = map (text_chunk (metadata d)) (enumerate 0 splits)) docs blocks"
    by blast
  let ?b = "map (text_chunk (metadata d)) (enumerate 0 splits)"
  have "out = acc @ concat (?b # blocks)" using o by simp
  moreover have "list_all2 (\<lambda>d b. \<exists>splits. st (page_content d) = Inr splits \<and>
                     b = map (text_chunk (metadata d)) (enumerate 0 splits)) (d # docs) (?b # blocks)"
    using s a by simp
  ultimately show ?case by blast
qed

lemma text_docs_loop_numbered:
  assumes "text_docs_loop st docs [] = Inr out"
  shows "numbered_per_document st docs out"
proof -
  from text_docs_loop_blocks [OF assms] obtain blocks where
    o: "out = concat blocks"
    and a: "list_all2 (\<lambda>d b. \<exists>splits. st (page_content d) = Inr splits \<and>
                     b = map (text_chunk (metadata d)) (enumerate 0 splits)) docs blocks"
    by auto
  have len: "length blocks = length docs" using a by (simp add: list_all2_lengthD)
  have each: "\<exists>splits. st (page_content (docs ! k)) = Inr splits \<and>
                     blocks ! k = map (text_chunk (metadata (docs ! k))) (enumerate 0 splits)"
    if "k < length docs" for k
    using a that by (simp add: list_all2_conv_all_nth)
  have "st (page_content (docs ! k)) = Inr (map page_content (blocks ! k)) \<and>
           (\<forall>j<length (blocks ! k).
              map_of (metadata (blocks ! k ! j)) ''chunkno'' = Some (PInt (int j + 1)) \<and>
              (\<forall>key. key \<noteq> ''chunkno'' \<longrightarrow>
                 map_of (metadata (blocks ! k ! j)) key = map_of (metadata (docs ! k)) key))"
    if k: "k < length docs" for k
  proof -
    from each [OF k] obtain splits where s: "st (page_content (docs ! k)) = Inr splits"
      and b: "blocks ! k = map (text_chunk (metadata (docs ! k))) (enumerate 0 splits)" by blast
    have "map page_content (blocks ! k) = splits" unfolding b by (rule text_chunk_block)
    moreover have "map_of (metadata (blocks ! k ! j)) ''chunkno'' = Some (PInt (int j + 1)) \<and>
              (\<forall>key. key \<noteq> ''chunkno'' \<longrightarrow>
                 map_of (metadata (blocks ! k ! j)) key = map_of (metadata (docs ! k)) key)"
      if "j < length (blocks ! k)" for j
    proof -
      have "j < length splits" using that b by simp
      then have "blocks ! k ! j = text_chunk (metadata (docs ! k)) (j, splits ! j)"
        using b by (simp add: nth_enumerate_eq)
      then show ?thesis by (simp add: text_chunk_chunkno text_chunk_other)
    qed
    ultimately show ?thesis using s by blast
  qed
  then show ?thesis unfolding numbered_per_document_def using o len by blast
qed


lemma recursive_text_splitter_silent:
  "recursive_text_splitter rc docs cs co = ([], Inr out) \<Longrightarrow>
     recursive_text_splitter_body rc docs cs co = Inr out"
  by (simp add: recursive_text_splitter_def split: sum.splits)

lemma character_text_splitter_silent:
  "character_text_splitter cc docs cs co sep = ([], Inr out) \<Longrightarrow>
     character_text_splitter_body cc docs cs co sep = Inr out"
  by (simp add: character_text_splitter_def split: sum.splits)

text \<open>
  C2 (as amended). When the recursive splitter, or the character splitter, returns without
  having caught an exception, its output is one block of chunks per source document, in
  the order of the documents; each block holds the chunks of its document in the order
  the text splitter produced them, numbered 1, 2, 3, ... under the metadata key
  \<open>chunkno\<close>, and every metadata entry of the source document under another key is in
  each chunk unchanged.
\<close>

theorem text_splitters_number_chunks_per_document:
  "(recursive_text_splitter rc docs cs co = ([], Inr out) \<longrightarrow>
      (\<exists>split_text. rc cs co = Inr split_text \<and> numbered_per_document split_text docs out)) \<and>
   (character_text_splitter cc docs cs co sep = ([], Inr out) \<longrightarrow>
      (\<exists>split_text. cc sep cs co = Inr split_text \<and> numbered_per_document split_text docs out))"
proof (intro conjI impI)
  assume "recursive_text_splitter rc docs cs co = ([], Inr out)"
  then have "recursive_text_splitter_body rc docs cs co = Inr out"
    by (rule recursive_text_splitter_silent)
  then obtain st where "rc cs co = Inr st" and "text_docs_loop st docs [] = Inr out"
    by (auto simp: recursive_text_splitter_body_def split: sum.splits)
  then show "\<exists>split_text. rc cs co = Inr split_text \<and> numbered_per_document split_text docs out"
    using text_docs_loop_numbered by blast
next
  assume "character_text_splitter cc docs cs co sep = ([], Inr out)"
  then have "character_text_splitter_body cc docs cs co sep = Inr out"
    by (rule character_text_splitter_silent)
  then obtain st where "cc sep cs co = Inr st" and "text_docs_loop st docs [] = Inr out"
    by (auto simp: character_text_splitter_body_def split: sum.splits)
  then show "\<exists>split_text. cc sep cs co = Inr split_text \<and> numbered_per_document split_text docs out"
    using text_docs_loop_numbered by blast
qed

theorem text_splitters_number_chunks_per_document_witness:
  "recursive_text_splitter stub_RecursiveCharacterTextSplitter
       [\<lparr>page_content = ''a b'', metadata = [(''source'', PStr ''x.txt'')]\<rparr>,
        \<lparr>page_content = ''c'', metadata = [(''source'', PStr ''y.txt'')]\<rparr>] 100 20 =
     ([], Inr [\<lparr>page_content = ''a'', metadata = [(''source'', PStr ''x.txt''), (''chunkno'', PInt 1)]\<rparr>,
               \<lparr>page_content = ''b'', metadata = [(''source'', PStr ''x.txt''), (''chunkno'', PInt 2)]\<rparr>,
               \<lparr>page_content = ''c'', metadata = [(''source'', PStr ''y.txt''), (''chunkno'', PInt 1)]\<rparr>]) \<and>
   character_text_splitter stub_CharacterTextSplitter
       [\<lparr>page_content = ''a b'', metadata = [(''source'', PStr ''x.txt'')]\<rparr>,
        \<lparr>page_content = ''c'', metadata = [(''source'', PStr ''y.txt'')]\<rparr>] 100 20 '' '' =
     ([], Inr [\<lparr>page_content = ''a'', metadata = [(''source'', PStr ''x.txt''), (''chunkno'', PInt 1)]\<rparr>,
               \<lparr>page_content = ''b'', metadata = [(''source'', PStr ''x.txt''), (''chunkno'', PInt 2)]\<rparr>,
               \<lparr>page_content = ''c'', metadata = [(''source'', PStr ''y.txt''), (''chunkno'', PInt 1)]\<rparr>]) \<and>
   (\<exists>split_text. stub_RecursiveCharacterTextSplitter 100 20 = Inr split_text \<and>
      numbered_per_document split_text
        [\<lparr>page_content = ''a b'', metadata = [(''source'', PStr ''x.txt'')]\<rparr>,
         \<lparr>page_content = ''c'', metadata = [(''source'', PStr ''y.txt'')]\<rparr>]
        [\<lparr>page_content = ''a'', metadata = [(''source'', PStr ''x.txt''), (''chunkno'', PInt 1)]\<rparr>,
         \<lparr>page_content = ''b'', metadata = [(''source'', PStr ''x.txt''), (''chunkno'', PInt 2)]\<rparr>,
         \<lparr>page_content = ''c'', metadata = [(''source'', PStr ''y.txt''), (''chunkno'', PInt 1)]\<rparr>])"
proof -
  let ?docs = "[\<lparr>page_content = ''a b'', metadata = [(''source'', PStr ''x.txt'')]\<rparr>,
                \<lparr>page_content = ''c'', metadata = [(''source'', PStr ''y.txt'')]\<rparr>]"
  let ?out = "[\<lparr>page_content = ''a'', metadata = [(''source'', PStr ''x.txt''), (''chunkno'', PInt 1)]\<rparr>,
               \<lparr>page_content = ''b'', metadata = [(''source'', PStr ''x.txt''), (''chunkno'', PInt 2)]\<rparr>,
               \<lparr>page_content = ''c'', metadata = [(''source'', PStr ''y.txt''), (''chunkno'', PInt 1)]\<rparr>]"
  have r: "recursive_text_splitter stub_RecursiveCharacterTextSplitter ?docs 100 20 = ([], Inr ?out)"
    by (simp add: recursive_text_splitter_def recursive_text_splitter_body_def
          stub_RecursiveCharacterTextSplitter_def text_chunk_def)
  have c: "character_text_splitter stub_CharacterTextSplitter ?docs 100 20 '' '' = ([], Inr ?out)"
    by (simp add: character_text_splitter_def character_text_splitter_body_def
          stub_CharacterTextSplitter_def stub_RecursiveCharacterTextSplitter_def text_chunk_def)
  from text_splitters_number_chunks_per_document
         [where rc = stub_RecursiveCharacterTextSplitter and docs = ?docs and cs = 100
            and co = 20 and out = ?out and cc = stub_CharacterTextSplitter and sep = "'' ''"] r c
  show ?thesis by blast
qed

text \<open>
  A source document that already has an entry under \<open>chunkno\<close> loses it: the chunks
  carry the chunk number there. No chunk has an entry under \<open>chunk_number\<close>.
\<close>

theorem original_chunkno_entry_is_replaced:
  "recursive_text_splitter stub_RecursiveCharacterTextSplitter
       [\<lparr>page_content = ''a b'', metadata = [(''chunkno'', PInt 7), (''source'', PStr ''x.txt'')]\<rparr>]
       100 20 =
     ([], Inr [\<lparr>page_content = ''a'', metadata = [(''chunkno'', PInt 1), (''source'', PStr ''x.txt'')]\<rparr>,
               \<lparr>page_content = ''b'', metadata = [(''chunkno'', PInt 2), (''source'', PStr ''x.txt'')]\<rparr>]) \<and>
   map_of [(''chunkno'', PInt 7), (''source'', PStr ''x.txt'')] ''chunkno'' = Some (PInt 7) \<and>
   map_of [(''chunkno'', PInt 1), (''source'', PStr ''x.txt'')] ''chunkno'' \<noteq> Some (PInt 7) \<and>
   map_of [(''chunkno'', PInt 1), (''source'', PStr ''x.txt'')] ''chunk_number'' = None"
  by (simp add: recursive_text_splitter_def recursive_text_splitter_body_def
        stub_RecursiveCharacterTextSplitter_def text_chunk_def)


section \<open>Tag order of the HTML splitter\<close>

lemma header_type_of_html_chunk:
  "header_type_of (html_chunk md idx header ic) = Some (PStr header)"
  by (simp add: header_type_of_def html_chunk_def update_conv)

lemma html_sections_loop_sorted:
  assumes "html_sections_loop st md triples acc = Inr out"
    and "sorted_wrt Q (map (\<lambda>t. Some (PStr (fst (snd t)))) triples)"
    and "\<And>x. Q x x"
  shows "\<exists>new. out = acc @ new \<and> sorted_wrt Q (map header_type_of new) \<and>
           set (map header_type_of new) \<subseteq> set (map (\<lambda>t. Some (PStr (fst (snd t)))) triples)"
  using assms(1,2)
proof (induction triples arbitrary: acc out)
  case Nil
  then show ?case by simp
next
  case (Cons t triples)
  obtain idx header body where t: "t = (idx, header, body)" by (cases t) auto
  from Cons.prems(1) t obtain chunks where c: "st body = Inr chunks"
    and r: "html_sections_loop st md triples
              (acc @ map (html_chunk md idx header) (enumerate 0 chunks)) = Inr out"
    by (auto split: sum.splits)
  let ?block = "map (html_chunk md idx header) (enumerate 0 chunks)"
  have s: "sorted_wrt Q (map (\<lambda>t. Some (PStr (fst (snd t)))) triples)"
    using Cons.prems(2) by simp
  have first: "\<forall>y\<in>set (map (\<lambda>t. Some (PStr (fst (snd t)))) triples). Q (Some (PStr header)) y"
    using Cons.prems(2) t by simp
  from Cons.IH [OF r s] obtain new where
    o: "out = (acc @ ?block) @ new" and sn: "sorted_wrt Q (map header_type_of new)"
    and sub: "set (map header_type_of new) \<subseteq> set (map (\<lambda>t. Some (PStr (fst (snd t)))) triples)"
    by blast
  have tags: "\<forall>x\<in>set (map header_type_of ?block). x = Some (PStr header)"
    by (auto simp: header_type_of_html_chunk)
  have sb: "sorted_wrt Q (map header_type_of ?block)"
    using tags assms(3) by (simp add: sorted_wrt_iff_nth_less)
  have cross: "\<forall>x\<in>set (map header_type_of ?block). \<forall>y\<in>set (map header_type_of new). Q x y"
  proof (intro ballI)
    fix x y
    assume "x \<in> set (map header_type_of ?block)" and y: "y \<in> set (map header_type_of new)"
    then have "x = Some (PStr header)" using tags by blast
    moreover have "y \<in> set (map (\<lambda>t. Some (PStr (fst (snd t)))) triples)" using y sub by blast
    ultimately show "Q x y" using first by blast
  qed
  have "sorted_wrt Q (map header_type_of (?block @ new))"
    using sb sn cross by (simp add: sorted_wrt_append)
  moreover have "set (map header_type_of (?block @ new))
                   \<subseteq> set (map (\<lambda>t. Some (PStr (fst (snd t)))) (t # triples))"
  proof
    fix x
    assume "x \<in> set (map header_type_of (?block @ new))"
    then have "x \<in> set (map header_type_of ?block) \<or> x \<in> set (map header_type_of new)"
      by auto
    then show "x \<in> set (map (\<lambda>t. Some (PStr (fst (snd t)))) (t # triples))"
    proof
      assume "x \<in> set (map header_type_of ?block)"
      then have "x = Some (PStr header)" using tags by blast
      then show ?thesis using t by simp
    next
      assume "x \<in> set (map header_type_of new)"
      then have "x \<in> set (map (\<lambda>t. Some (PStr (fst (snd t)))) triples)" using sub by blast
      then show ?thesis by simp
    qed
  qed
  moreover have "out = acc @ (?block @ new)" using o by simp
  ultimately show ?case by (intro exI [of _ "?block @ new"] conjI)
qed



lemma sections_tags:
  "map fst (sections lib soup headers) =
     concat (map (\<lambda>h. replicate (length (find_all lib soup h)) h) headers)"
proof (induction headers)
  case Nil
  then show ?case by (simp add: sections_def)
next
  case (Cons h headers)
  have "map fst (map (\<lambda>element. (h, get_text lib element)) (find_all lib soup h)) =
          replicate (length (find_all lib soup h)) h"
    by (simp add: comp_def map_replicate_const)
  then show ?case using Cons.IH by (simp add: sections_def)
qed

lemma replicated_tags_sorted:
  assumes "distinct (pre @ suf)"
  shows "sorted_wrt (\<lambda>x y. \<forall>a b. a < length (pre @ suf) \<and> b < length (pre @ suf) \<and>
                         x = (pre @ suf) ! a \<and> y = (pre @ suf) ! b \<longrightarrow> a \<le> b)
           (concat (map (\<lambda>h. replicate (n h) h) suf))"
  using assms
proof (induction suf arbitrary: pre)
  case Nil
  then show ?case by simp
next
  case (Cons h suf)
  let ?hs = "pre @ h # suf"
  let ?Q = "\<lambda>x y. \<forall>a b. a < length ?hs \<and> b < length ?hs \<and> x = ?hs ! a \<and> y = ?hs ! b \<longrightarrow> a \<le> b"
  have d: "distinct ((pre @ [h]) @ suf)" using Cons.prems by simp
  have ih: "sorted_wrt ?Q (concat (map (\<lambda>h. replicate (n h) h) suf))"
    using Cons.IH [OF d] by simp
  have pos: "?hs ! length pre = h" by simp
  have dist: "distinct ?hs" using Cons.prems by simp
  have inj: "a = b" if "a < length ?hs" "b < length ?hs" "?hs ! a = ?hs ! b" for a b
    using that dist by (simp add: nth_eq_iff_index_eq)
  have refl: "?Q h h"
  proof (intro allI impI)
    fix a b
    assume "a < length ?hs \<and> b < length ?hs \<and> h = ?hs ! a \<and> h = ?hs ! b"
    then have "a = b" using inj [of a b] by simp
    then show "a \<le> b" by simp
  qed
  have later: "?Q h y" if "y \<in> set suf" for y
  proof (intro allI impI)
    fix a b
    assume ab: "a < length ?hs \<and> b < length ?hs \<and> h = ?hs ! a \<and> y = ?hs ! b"
    have "length pre < length ?hs" by simp
    moreover have "?hs ! a = ?hs ! length pre" using ab pos by simp
    ultimately have a: "a = length pre" using inj [of a "length pre"] ab by blast
    have "\<not> b < length pre"
    proof
      assume "b < length pre"
      then have "y \<in> set pre" using ab by (simp add: nth_append)
      then show False using that Cons.prems by auto
    qed
    moreover have "b \<noteq> length pre"
    proof
      assume "b = length pre"
      then have "y = h" using ab by simp
      then show False using that Cons.prems by auto
    qed
    ultimately show "a \<le> b" using a by simp
  qed
  have rep: "sorted_wrt ?Q (replicate (n h) h)"
    using refl by (simp add: sorted_wrt_iff_nth_less)
  have "\<forall>x\<in>set (replicate (n h) h). \<forall>y\<in>set (concat (map (\<lambda>h. replicate (n h) h) suf)). ?Q x y"
    using later by auto
  then show ?case using rep ih by (simp add: sorted_wrt_append)
qed

lemma map_after_enumerate: "map (\<lambda>t. g (snd t)) (enumerate n xs) = map g xs"
  by (induction xs arbitrary: n) simp_all

lemma html_sections_loop_ordered:
  assumes d: "distinct headers"
    and l: "html_sections_loop st md (enumerate 0 (sections lib soup headers)) [] = Inr chunked"
  shows "earlier_tags_first headers chunked"
proof -
  let ?R = "\<lambda>x y. \<forall>a b. a < length headers \<and> b < length headers \<and>
                        x = headers ! a \<and> y = headers ! b \<longrightarrow> a \<le> b"
  let ?Q = "\<lambda>x y. \<forall>a b. a < length headers \<and> b < length headers \<and>
                        x = Some (PStr (headers ! a)) \<and> y = Some (PStr (headers ! b)) \<longrightarrow> a \<le> b"
  let ?secs = "sections lib soup headers"
  have inj: "a = b" if "a < length headers" "b < length headers" "headers ! a = headers ! b" for a b
    using that d by (simp add: nth_eq_iff_index_eq)
  have s0: "sorted_wrt ?R (map fst ?secs)"
    using replicated_tags_sorted [of "[]" headers "\<lambda>h. length (find_all lib soup h)"] d
    by (simp add: sections_tags)
  have "map (\<lambda>t. Some (PStr (fst (snd t)))) (enumerate 0 ?secs) =
          map (\<lambda>p. Some (PStr (fst p))) ?secs"
    by (rule map_after_enumerate)
  then have m: "map (\<lambda>t. Some (PStr (fst (snd t)))) (enumerate 0 ?secs) =
          map (\<lambda>h. Some (PStr h)) (map fst ?secs)"
    by (simp add: comp_def)
  have s1: "sorted_wrt ?Q (map (\<lambda>t. Some (PStr (fst (snd t)))) (enumerate 0 ?secs))"
    unfolding m using s0 by (simp add: sorted_wrt_map)
  have refl: "?Q x x" for x
  proof (intro allI impI)
    fix a b
    assume "a < length headers \<and> b < length headers \<and>
              x = Some (PStr (headers ! a)) \<and> x = Some (PStr (headers ! b))"
    then have "a < length headers" "b < length headers" "headers ! a = headers ! b" by auto
    then have "a = b" by (rule inj)
    then show "a \<le> b" by simp
  qed
  from html_sections_loop_sorted [OF l s1 refl] have srt: "sorted_wrt ?Q (map header_type_of chunked)"
    by simp
  show ?thesis
    unfolding earlier_tags_first_def
  proof (intro allI impI)
    fix i j a b
    assume h: "i < length chunked \<and> j < length chunked \<and> a < b \<and> b < length headers \<and>
                 header_type_of (chunked ! i) = Some (PStr (headers ! a)) \<and>
                 header_type_of (chunked ! j) = Some (PStr (headers ! b))"
    show "i < j"
    proof (rule ccontr)
      assume "\<not> i < j"
      then consider "i = j" | "j < i" by linarith
      then show False
      proof cases
        case 1
        have "header_type_of (chunked ! i) = header_type_of (chunked ! j)" using 1 by simp
        then have "Some (PStr (headers ! a)) = Some (PStr (headers ! b))" using h by metis
        then have "headers ! a = headers ! b" by simp
        moreover have "a < length headers" "b < length headers" using h by auto
        ultimately have "a = b" using inj by blast
        then show False using h by simp
      next
        case 2
        have "?Q (map header_type_of chunked ! j) (map header_type_of chunked ! i)"
        proof -
          have "j < i" "i < length (map header_type_of chunked)" using 2 h by auto
          then show ?thesis using srt sorted_wrt_iff_nth_less [of ?Q "map header_type_of chunked"]
            by blast
        qed
        moreover have "map header_type_of chunked ! j = Some (PStr (headers ! b))"
          "map header_type_of chunked ! i = Some (PStr (headers ! a))"
          using h by auto
        ultimately have "?Q (Some (PStr (headers ! b))) (Some (PStr (headers ! a)))"
          by simp
        moreover have "b < length headers" "a < length headers" using h by auto
        ultimately have "b \<le> a" by blast
        then show False using h by simp
      qed
    qed
  qed
qed

lemma html_docs_loop_blocks:
  "html_docs_loop lib st headers docs acc = Inr out \<Longrightarrow>
     \<exists>per_doc. out = acc @ concat per_doc \<and>
       list_all2 (\<lambda>d b. \<exists>soup. BeautifulSoup lib (page_content d) = Inr soup \<and>
                    html_sections_loop st (metadata d) (enumerate 0 (sections lib soup headers)) []
                      = Inr b) docs per_doc"
proof (induction docs arbitrary: acc out)
  case Nil
  then show ?case by simp
next
  case (Cons d docs)
  let ?P = "\<lambda>d b. \<exists>soup. BeautifulSoup lib (page_content d) = Inr soup \<and>
                    html_sections_loop st (metadata d) (enumerate 0 (sections lib soup headers)) []
                      = Inr b"
  from Cons.prems obtain soup chunked where
    p: "BeautifulSoup lib (page_content d) = Inr soup"
    and c: "html_sections_loop st (metadata d) (enumerate 0 (sections lib soup headers)) []
              = Inr chunked"
    and r: "html_docs_loop lib st headers docs (acc @ chunked) = Inr out"
    by (auto split: sum.splits)
  from Cons.IH [OF r] obtain per_doc where
    o: "out = (acc @ chunked) @ concat per_doc" and a: "list_all2 ?P docs per_doc"
    by blast
  have "out = acc @ concat (chunked # per_doc)" using o by simp
  moreover have "list_all2 ?P (d # docs) (chunked # per_doc)" using p c a by auto
  ultimately show ?case by (intro exI [of _ "chunked # per_doc"] conjI)
qed

lemma html_splitter_silent:
  "html_splitter lib rc docs cs co hs = ([], Inr out) \<longleftrightarrow>
     html_splitter_body lib rc docs cs co hs = Inr out"
  by (simp add: html_splitter_def split: sum.splits)

text \<open>
  C1 (as amended). For a tag list without repeated names, when the HTML splitter returns
  without having caught an exception, its output is one block of chunks per source
  document, in the order of the documents; each block is what the splitter returns for that
  document alone, and inside a block every chunk of an earlier-listed tag stands before
  every chunk of a later-listed tag, wherever the elements occur in the document.
\<close>

theorem html_splitter_groups_tags_per_document:
  assumes "distinct headers"
    and "html_splitter lib rc docs cs co headers = ([], Inr out)"
  shows "\<exists>per_doc. out = concat per_doc \<and> length per_doc = length docs \<and>
           (\<forall>k<length docs.
              html_splitter lib rc [docs ! k] cs co headers = ([], Inr (per_doc ! k)) \<and>
              earlier_tags_first headers (per_doc ! k))"
proof -
  let ?P = "\<lambda>st d b. \<exists>soup. BeautifulSoup lib (page_content d) = Inr soup \<and>
                    html_sections_loop st (metadata d) (enumerate 0 (sections lib soup headers)) []
                      = Inr b"
  from assms(2) have "html_splitter_body lib rc docs cs co headers = Inr out"
    by (simp add: html_splitter_silent)
  then obtain st where st: "rc cs co = Inr st"
    and l: "html_docs_loop lib st headers docs [] = Inr out"
    by (auto simp: html_splitter_body_def split: sum.splits)
  from html_docs_loop_blocks [OF l] obtain per_doc where
    o: "out = concat per_doc" and a: "list_all2 (?P st) docs per_doc"
    by auto
  have len: "length per_doc = length docs" using a by (simp add: list_all2_lengthD)
  have each: "html_splitter lib rc [docs ! k] cs co headers = ([], Inr (per_doc ! k)) \<and>
              earlier_tags_first headers (per_doc ! k)" if k: "k < length docs" for k
  proof -
    from a k have "?P st (docs ! k) (per_doc ! k)" by (simp add: list_all2_conv_all_nth)
    then obtain soup where p: "BeautifulSoup lib (page_content (docs ! k)) = Inr soup"
      and c: "html_sections_loop st (metadata (docs ! k))
                (enumerate 0 (sections lib soup headers)) [] = Inr (per_doc ! k)"
      by blast
    have "html_splitter_body lib rc [docs ! k] cs co headers = Inr (per_doc ! k)"
      using st p c by (simp add: html_splitter_body_def)
    then have "html_splitter lib rc [docs ! k] cs co headers = ([], Inr (per_doc ! k))"
      by (simp add: html_splitter_silent)
    moreover have "earlier_tags_first headers (per_doc ! k)"
      using html_sections_loop_ordered [OF assms(1) c] .
    ultimately show ?thesis by simp
  qed
  show ?thesis using o len each by blast
qed

lemma str_nat_digit: "n < 10 \<Longrightarrow> str_nat n = [digit_char n]"
  by (subst str_nat.simps) simp

theorem html_splitter_groups_tags_per_document_witness:
  "distinct [''h1'', ''h2''] \<and>
   html_splitter
       (stub_bs4 [(''<h1>A B</h1><h2>C</h2><h1>D</h1>'',
                   [(''h1'', ''A B''), (''h2'', ''C''), (''h1'', ''D'')])])
       stub_RecursiveCharacterTextSplitter
       [\<lparr>page_content = ''<h1>A B</h1><h2>C</h2><h1>D</h1>'', metadata = []\<rparr>]
       100 20 [''h1'', ''h2''] =
     ([], Inr [\<lparr>page_content = ''A'', metadata = [(''chunkno'', PStr ''1-1''), (''header_type'', PStr ''h1'')]\<rparr>,
               \<lparr>page_content = ''B'', metadata = [(''chunkno'', PStr ''1-2''), (''header_type'', PStr ''h1'')]\<rparr>,
               \<lparr>page_content = ''D'', metadata = [(''chunkno'', PStr ''2-1''), (''header_type'', PStr ''h1'')]\<rparr>,
               \<lparr>page_content = ''C'', metadata = [(''chunkno'', PStr ''3-1''), (''header_type'', PStr ''h2'')]\<rparr>]) \<and>
   (\<exists>per_doc.
      [\<lparr>page_content = ''A'', metadata = [(''chunkno'', PStr ''1-1''), (''header_type'', PStr ''h1'')]\<rparr>,
       \<lparr>page_content = ''B'', metadata = [(''chunkno'', PStr ''1-2''), (''header_type'', PStr ''h1'')]\<rparr>,
       \<lparr>page_content = ''D'', metadata = [(''chunkno'', PStr ''2-1''), (''header_type'', PStr ''h1'')]\<rparr>,
       \<lparr>page_content = ''C'', metadata = [(''chunkno'', PStr ''3-1''), (''header_type'', PStr ''h2'')]\<rparr>]
        = concat per_doc \<and>
      length per_doc = 1 \<and> earlier_tags_first [''h1'', ''h2''] (per_doc ! 0))"
proof -
  let ?lib = "stub_bs4 [(''<h1>A B</h1><h2>C</h2><h1>D</h1>'',
                   [(''h1'', ''A B''), (''h2'', ''C''), (''h1'', ''D'')])]"
  let ?docs = "[\<lparr>page_content = ''<h1>A B</h1><h2>C</h2><h1>D</h1>'', metadata = []\<rparr>]"
  let ?out = "[\<lparr>page_content = ''A'', metadata = [(''chunkno'', PStr ''1-1''), (''header_type'', PStr ''h1'')]\<rparr>,
               \<lparr>page_content = ''B'', metadata = [(''chunkno'', PStr ''1-2''), (''header_type'', PStr ''h1'')]\<rparr>,
               \<lparr>page_content = ''D'', metadata = [(''chunkno'', PStr ''2-1''), (''header_type'', PStr ''h1'')]\<rparr>,
               \<lparr>page_content = ''C'', metadata = [(''chunkno'', PStr ''3-1''), (''header_type'', PStr ''h2'')]\<rparr>]"
  have d: "distinct [''h1'', ''h2'']" by simp
  have e: "html_splitter ?lib stub_RecursiveCharacterTextSplitter ?docs 100 20 [''h1'', ''h2'']
             = ([], Inr ?out)"
    by (simp add: html_splitter_def html_splitter_body_def stub_RecursiveCharacterTextSplitter_def
          stub_bs4_def sections_def html_chunk_def str_nat_digit digit_char_def)
  from html_splitter_groups_tags_per_document [OF d e] obtain per_doc where
    "?out = concat per_doc" "length per_doc = length ?docs"
    "\<forall>k<length ?docs. earlier_tags_first [''h1'', ''h2''] (per_doc ! k)"
    by blast
  then have "?out = concat per_doc \<and> length per_doc = 1 \<and>
               earlier_tags_first [''h1'', ''h2''] (per_doc ! 0)"
    by simp
  then show ?thesis using d e by blast
qed

text \<open>
  Across two source documents the grouping does not hold: with tags h1, h2 and two
  documents that each have one h1 and one h2 element, the h2 chunk of the first document
  (position 1) stands before the h1 chunk of the second document (position 2).
\<close>

theorem html_chunks_of_two_documents_interleave_tags:
  "html_splitter
       (stub_bs4 [(''<h1>A</h1><h2>B</h2>'', [(''h1'', ''A''), (''h2'', ''B'')]),
                  (''<h1>C</h1><h2>D</h2>'', [(''h1'', ''C''), (''h2'', ''D'')])])
       stub_RecursiveCharacterTextSplitter
       [\<lparr>page_content = ''<h1>A</h1><h2>B</h2>'', metadata = []\<rparr>,
        \<lparr>page_content = ''<h1>C</h1><h2>D</h2>'', metadata = []\<rparr>]
       100 20 [''h1'', ''h2''] =
     ([], Inr [\<lparr>page_content = ''A'', metadata = [(''chunkno'', PStr ''1-1''), (''header_type'', PStr ''h1'')]\<rparr>,
               \<lparr>page_content = ''B'', metadata = [(''chunkno'', PStr ''2-1''), (''header_type'', PStr ''h2'')]\<rparr>,
               \<lparr>page_content = ''C'', metadata = [(''chunkno'', PStr ''1-1''), (''header_type'', PStr ''h1'')]\<rparr>,
               \<lparr>page_content = ''D'', metadata = [(''chunkno'', PStr ''2-1''), (''header_type'', PStr ''h2'')]\<rparr>]) \<and>
   \<not> earlier_tags_first [''h1'', ''h2'']
       [\<lparr>page_content = ''A'', metadata = [(''chunkno'', PStr ''1-1''), (''header_type'', PStr ''h1'')]\<rparr>,
        \<lparr>page_content = ''B'', metadata = [(''chunkno'', PStr ''2-1''), (''header_type'', PStr ''h2'')]\<rparr>,
        \<lparr>page_content = ''C'', metadata = [(''chunkno'', PStr ''1-1''), (''header_type'', PStr ''h1'')]\<rparr>,
        \<lparr>page_content = ''D'', metadata = [(''chunkno'', PStr ''2-1''), (''header_type'', PStr ''h2'')]\<rparr>]"
proof -
  let ?out = "[\<lparr>page_content = ''A'', metadata = [(''chunkno'', PStr ''1-1''), (''header_type'', PStr ''h1'')]\<rparr>,
        \<lparr>page_content = ''B'', metadata = [(''chunkno'', PStr ''2-1''), (''header_type'', PStr ''h2'')]\<rparr>,
        \<lparr>page_content = ''C'', metadata = [(''chunkno'', PStr ''1-1''), (''header_type'', PStr ''h1'')]\<rparr>,
        \<lparr>page_content = ''D'', metadata = [(''chunkno'', PStr ''2-1''), (''header_type'', PStr ''h2'')]\<rparr>]"
  have e: "html_splitter
       (stub_bs4 [(''<h1>A</h1><h2>B</h2>'', [(''h1'', ''A''), (''h2'', ''B'')]),
                  (''<h1>C</h1><h2>D</h2>'', [(''h1'', ''C''), (''h2'', ''D'')])])
       stub_RecursiveCharacterTextSplitter
       [\<lparr>page_content = ''<h1>A</h1><h2>B</h2>'', metadata = []\<rparr>,
        \<lparr>page_content = ''<h1>C</h1><h2>D</h2>'', metadata = []\<rparr>]
       100 20 [''h1'', ''h2''] = ([], Inr ?out)"
    by (simp add: html_splitter_def html_splitter_body_def stub_RecursiveCharacterTextSplitter_def
          stub_bs4_def sections_def html_chunk_def str_nat_digit digit_char_def)
  have "\<not> earlier_tags_first [''h1'', ''h2''] ?out"
  proof
    assume "earlier_tags_first [''h1'', ''h2''] ?out"
    then have "2 < length ?out \<and> 1 < length ?out \<and> (0::nat) < 1 \<and> 1 < length [''h1'', ''h2''] \<and>
        header_type_of (?out ! 2) = Some (PStr ([''h1'', ''h2''] ! 0)) \<and>
        header_type_of (?out ! 1) = Some (PStr ([''h1'', ''h2''] ! 1)) \<longrightarrow> (2::nat) < 1"
      unfolding earlier_tags_first_def by blast
    then show False by (simp add: header_type_of_def)
  qed
  then show ?thesis using e by blast
qed


section \<open>Metadata keys written by the splitters\<close>

lemma html_sections_loop_groups:
  "html_sections_loop st md triples acc = Inr out \<Longrightarrow>
     \<exists>groups. out = acc @ concat groups \<and>
       list_all2 (\<lambda>t g. \<exists>chunks. st (snd (snd t)) = Inr chunks \<and>
                    g = map (html_chunk md (fst t) (fst (snd t))) (enumerate 0 chunks))
         triples groups"
proof (induction triples arbitrary: acc out)
  case Nil
  then show ?case by simp
next
  case (Cons t triples)
  let ?P = "\<lambda>t g. \<exists>chunks. st (snd (snd t)) = Inr chunks \<and>
                    g = map (html_chunk md (fst t) (fst (snd t))) (enumerate 0 chunks)"
  obtain idx header body where t: "t = (idx, header, body)" by (cases t) auto
  from Cons.prems t obtain chunks where c: "st body = Inr chunks"
    and r: "html_sections_loop st md triples
              (acc @ map (html_chunk md idx header) (enumerate 0 chunks)) = Inr out"
    by (auto split: sum.splits)
  let ?g = "map (html_chunk md idx header) (enumerate 0 chunks)"
  from Cons.IH [OF r] obtain groups where
    o: "out = (acc @ ?g) @ concat groups" and a: "list_all2 ?P triples groups"
    by blast
  have "out = acc @ concat (?g # groups)" using o by simp
  moreover have "?P t ?g" using c t by simp
  then have "list_all2 ?P (t # triples) (?g # groups)" using a by simp
  ultimately show ?case by (intro exI [of _ "?g # groups"] conjI)
qed

lemma html_chunk_metadata:
  "map_of (metadata (html_chunk md i h (j, s))) ''chunkno''
     = Some (PStr (str_nat (i + 1) @ ''-'' @ str_nat (j + 1))) \<and>
   map_of (metadata (html_chunk md i h (j, s))) ''header_type'' = Some (PStr h) \<and>
   keeps_other_keys {''chunkno'', ''header_type''} \<lparr>page_content = pc, metadata = md\<rparr>
     (html_chunk md i h (j, s))"
  by (simp add: keeps_other_keys_def html_chunk_def update_conv)

lemma keeps_other_keys_same_metadata:
  "keeps_other_keys W \<lparr>page_content = pc, metadata = metadata d\<rparr> c \<Longrightarrow> keeps_other_keys W d c"
  by (simp add: keeps_other_keys_def)

lemma html_chunk_block: "map page_content (map (html_chunk md i h) (enumerate 0 chunks)) = chunks"
  by (simp add: html_chunk_def comp_def map_snd_enumerate)

lemma html_sections_loop_tagged:
  assumes l: "html_sections_loop st (metadata d) (enumerate 0 secs) [] = Inr block"
  shows "\<exists>groups. block = concat groups \<and> length groups = length secs \<and>
           (\<forall>i<length secs.
              st (snd (secs ! i)) = Inr (map page_content (groups ! i)) \<and>
              (\<forall>j<length (groups ! i).
                 map_of (metadata (groups ! i ! j)) ''chunkno''
                   = Some (PStr (str_nat (i + 1) @ ''-'' @ str_nat (j + 1))) \<and>
                 map_of (metadata (groups ! i ! j)) ''header_type'' = Some (PStr (fst (secs ! i))) \<and>
                 keeps_other_keys {''chunkno'', ''header_type''} d (groups ! i ! j)))"
proof -
  let ?P = "\<lambda>t g. \<exists>chunks. st (snd (snd t)) = Inr chunks \<and>
                    g = map (html_chunk (metadata d) (fst t) (fst (snd t))) (enumerate 0 chunks)"
  from html_sections_loop_groups [OF l] obtain groups where
    o: "block = concat groups" and a: "list_all2 ?P (enumerate 0 secs) groups"
    by auto
  have len: "length groups = length secs" using a by (auto dest: list_all2_lengthD)
  have each: "st (snd (secs ! i)) = Inr (map page_content (groups ! i)) \<and>
              (\<forall>j<length (groups ! i).
                 map_of (metadata (groups ! i ! j)) ''chunkno''
                   = Some (PStr (str_nat (i + 1) @ ''-'' @ str_nat (j + 1))) \<and>
                 map_of (metadata (groups ! i ! j)) ''header_type'' = Some (PStr (fst (secs ! i))) \<and>
                 keeps_other_keys {''chunkno'', ''header_type''} d (groups ! i ! j))"
    if i: "i < length secs" for i
  proof -
    have "?P (enumerate 0 secs ! i) (groups ! i)"
      using a i by (simp add: list_all2_conv_all_nth)
    moreover have "enumerate 0 secs ! i = (i, secs ! i)" using i by (simp add: nth_enumerate_eq)
    ultimately obtain chunks where c: "st (snd (secs ! i)) = Inr chunks"
      and g: "groups ! i = map (html_chunk (metadata d) i (fst (secs ! i))) (enumerate 0 chunks)"
      by auto
    have "map page_content (groups ! i) = chunks" unfolding g by (rule html_chunk_block)
    moreover have "map_of (metadata (groups ! i ! j)) ''chunkno''
                   = Some (PStr (str_nat (i + 1) @ ''-'' @ str_nat (j + 1))) \<and>
                 map_of (metadata (groups ! i ! j)) ''header_type'' = Some (PStr (fst (secs ! i))) \<and>
                 keeps_other_keys {''chunkno'', ''header_type''} d (groups ! i ! j)"
      if "j < length (groups ! i)" for j
    proof -
      have "j < length chunks" using that g by simp
      then have e: "groups ! i ! j = html_chunk (metadata d) i (fst (secs ! i)) (j, chunks ! j)"
        using g by (simp add: nth_enumerate_eq)
      show ?thesis
        unfolding e
        using html_chunk_metadata [of "metadata d" i "fst (secs ! i)" j "chunks ! j" "page_content d"]
          keeps_other_keys_same_metadata
        by blast
    qed
    ultimately show ?thesis using c by blast
  qed
  show ?thesis using o len each by blast
qed

text \<open>
  C9 (as amended). When a splitter returns without having caught an exception, every
  chunk belongs to the block of its own source document and agrees with that document on
  every metadata key the splitter does not write. Under the keys the splitter writes the
  chunk has the splitter's values, whatever the source document had there: for the two
  text splitters the chunk number \<open>j + 1\<close> under \<open>chunkno\<close>; for the HTML
  splitter the composite number of section and chunk under \<open>chunkno\<close> and the tag
  of the section under \<open>header_type\<close>.
\<close>

theorem splitter_keys_replace_colliding_entries:
  "(html_splitter lib rc docs cs co hs = ([], Inr out) \<longrightarrow>
      (\<exists>split_text. rc cs co = Inr split_text \<and>
         tagged_per_document lib split_text hs docs out)) \<and>
   (recursive_text_splitter rc docs cs co = ([], Inr out) \<longrightarrow>
      (\<exists>split_text. rc cs co = Inr split_text \<and> numbered_per_document split_text docs out)) \<and>
   (character_text_splitter cc docs cs co sep = ([], Inr out) \<longrightarrow>
      (\<exists>split_text. cc sep cs co = Inr split_text \<and> numbered_per_document split_text docs out))"
proof (intro conjI impI)
  assume "html_splitter lib rc docs cs co hs = ([], Inr out)"
  then have "html_splitter_body lib rc docs cs co hs = Inr out"
    by (simp add: html_splitter_silent)
  then obtain st where st: "rc cs co = Inr st"
    and l: "html_docs_loop lib st hs docs [] = Inr out"
    by (auto simp: html_splitter_body_def split: sum.splits)
  let ?P = "\<lambda>d b. \<exists>soup. BeautifulSoup lib (page_content d) = Inr soup \<and>
                    html_sections_loop st (metadata d) (enumerate 0 (sections lib soup hs)) []
                      = Inr b"
  from html_docs_loop_blocks [OF l] obtain blocks where
    o: "out = concat blocks" and a: "list_all2 ?P docs blocks"
    by auto
  have len: "length blocks = length docs" using a by (auto dest: list_all2_lengthD)
  have each: "\<exists>soup groups.
           BeautifulSoup lib (page_content (docs ! k)) = Inr soup \<and>
           blocks ! k = concat groups \<and>
           length groups = length (sections lib soup hs) \<and>
           (\<forall>i<length (sections lib soup hs).
              st (snd (sections lib soup hs ! i)) = Inr (map page_content (groups ! i)) \<and>
              (\<forall>j<length (groups ! i).
                 map_of (metadata (groups ! i ! j)) ''chunkno''
                   = Some (PStr (str_nat (i + 1) @ ''-'' @ str_nat (j + 1))) \<and>
                 map_of (metadata (groups ! i ! j)) ''header_type''
                   = Some (PStr (fst (sections lib soup hs ! i))) \<and>
                 keeps_other_keys {''chunkno'', ''header_type''} (docs ! k) (groups ! i ! j)))"
    if k: "k < length docs" for k
  proof -
    from a k have "?P (docs ! k) (blocks ! k)" by (simp add: list_all2_conv_all_nth)
    then obtain soup where p: "BeautifulSoup lib (page_content (docs ! k)) = Inr soup"
      and c: "html_sections_loop st (metadata (docs ! k))
                (enumerate 0 (sections lib soup hs)) [] = Inr (blocks ! k)"
      by blast
    from html_sections_loop_tagged [OF c] p show ?thesis by blast
  qed
  have "tagged_per_document lib st hs docs out"
    unfolding tagged_per_document_def using o len each by blast
  then show "\<exists>split_text. rc cs co = Inr split_text \<and>
         tagged_per_document lib split_text hs docs out"
    using st by blast
next
  assume "recursive_text_splitter rc docs cs co = ([], Inr out)"
  then have "recursive_text_splitter_body rc docs cs co = Inr out"
    by (rule recursive_text_splitter_silent)
  then obtain st where "rc cs co = Inr st" and "text_docs_loop st docs [] = Inr out"
    by (auto simp: recursive_text_splitter_body_def split: sum.splits)
  then show "\<exists>split_text. rc cs co = Inr split_text \<and> numbered_per_document split_text docs out"
    using text_docs_loop_numbered by blast
next
  assume "character_text_splitter cc docs cs co sep = ([], Inr out)"
  then have "character_text_splitter_body cc docs cs co sep = Inr out"
    by (rule character_text_splitter_silent)
  then obtain st where "cc sep cs co = Inr st" and "text_docs_loop st docs [] = Inr out"
    by (auto simp: character_text_splitter_body_def split: sum.splits)
  then show "\<exists>split_text. cc sep cs co = Inr split_text \<and> numbered_per_document split_text docs out"
    using text_docs_loop_numbered by blast
qed

theorem splitter_keys_replace_colliding_entries_witness:
  "html_splitter (stub_bs4 [(''<h1>A B</h1><p>C</p>'', [(''h1'', ''A B''), (''p'', ''C'')])])
       stub_RecursiveCharacterTextSplitter
       [\<lparr>page_content = ''<h1>A B</h1><p>C</p>'',
         metadata = [(''header_type'', PStr ''article''), (''source'', PStr ''x.html'')]\<rparr>]
       100 20 [''h1'', ''p''] =
     ([], Inr [\<lparr>page_content = ''A'',
                metadata = [(''header_type'', PStr ''h1''), (''source'', PStr ''x.html''),
                            (''chunkno'', PStr ''1-1'')]\<rparr>,
               \<lparr>page_content = ''B'',
                metadata = [(''header_type'', PStr ''h1''), (''source'', PStr ''x.html''),
                            (''chunkno'', PStr ''1-2'')]\<rparr>,
               \<lparr>page_content = ''C'',
                metadata = [(''header_type'', PStr ''p''), (''source'', PStr ''x.html''),
                            (''chunkno'', PStr ''2-1'')]\<rparr>]) \<and>
   (\<exists>split_text. stub_RecursiveCharacterTextSplitter 100 20 = Inr split_text \<and>
      tagged_per_document
        (stub_bs4 [(''<h1>A B</h1><p>C</p>'', [(''h1'', ''A B''), (''p'', ''C'')])])
        split_text [''h1'', ''p'']
        [\<lparr>page_content = ''<h1>A B</h1><p>C</p>'',
          metadata = [(''header_type'', PStr ''article''), (''source'', PStr ''x.html'')]\<rparr>]
        [\<lparr>page_content = ''A'',
          metadata = [(''header_type'', PStr ''h1''), (''source'', PStr ''x.html''),
                      (''chunkno'', PStr ''1-1'')]\<rparr>,
         \<lparr>page_content = ''B'',
          metadata = [(''header_type'', PStr ''h1''), (''source'', PStr ''x.html''),
                      (''chunkno'', PStr ''1-2'')]\<rparr>,
         \<lparr>page_content = ''C'',
          metadata = [(''header_type'', PStr ''p''), (''source'', PStr ''x.html''),
                      (''chunkno'', PStr ''2-1'')]\<rparr>]) \<and>
   recursive_text_splitter stub_RecursiveCharacterTextSplitter
       [\<lparr>page_content = ''a b'', metadata = [(''chunkno'', PInt 7), (''page'', PInt 3)]\<rparr>]
       100 20 =
     ([], Inr [\<lparr>page_content = ''a'', metadata = [(''chunkno'', PInt 1), (''page'', PInt 3)]\<rparr>,
               \<lparr>page_content = ''b'', metadata = [(''chunkno'', PInt 2), (''page'', PInt 3)]\<rparr>]) \<and>
   (\<exists>split_text. stub_RecursiveCharacterTextSplitter 100 20 = Inr split_text \<and>
      numbered_per_document split_text
        [\<lparr>page_content = ''a b'', metadata = [(''chunkno'', PInt 7), (''page'', PInt 3)]\<rparr>]
        [\<lparr>page_content = ''a'', metadata = [(''chunkno'', PInt 1), (''page'', PInt 3)]\<rparr>,
         \<lparr>page_content = ''b'', metadata = [(''chunkno'', PInt 2), (''page'', PInt 3)]\<rparr>]) \<and>
   character_text_splitter stub_CharacterTextSplitter
       [\<lparr>page_content = ''a b'', metadata = [(''chunkno'', PInt 7), (''page'', PInt 3)]\<rparr>]
       100 20 '' '' =
     ([], Inr [\<lparr>page_content = ''a'', metadata = [(''chunkno'', PInt 1), (''page'', PInt 3)]\<rparr>,
               \<lparr>page_content = ''b'', metadata = [(''chunkno'', PInt 2), (''page'', PInt 3)]\<rparr>]) \<and>
   (\<exists>split_text. stub_CharacterTextSplitter '' '' 100 20 = Inr split_text \<and>
      numbered_per_document split_text
        [\<lparr>page_content = ''a b'', metadata = [(''chunkno'', PInt 7), (''page'', PInt 3)]\<rparr>]
        [\<lparr>page_content = ''a'', metadata = [(''chunkno'', PInt 1), (''page'', PInt 3)]\<rparr>,
         \<lparr>page_content = ''b'', metadata = [(''chunkno'', PInt 2), (''page'', PInt 3)]\<rparr>])"
proof -
  let ?lib = "stub_bs4 [(''<h1>A B</h1><p>C</p>'', [(''h1'', ''A B''), (''p'', ''C'')])]"
  let ?hd = "[\<lparr>page_content = ''<h1>A B</h1><p>C</p>'',
         metadata = [(''header_type'', PStr ''article''), (''source'', PStr ''x.html'')]\<rparr>]"
  let ?ho = "[\<lparr>page_content = ''A'',
                metadata = [(''header_type'', PStr ''h1''), (''source'', PStr ''x.html''),
                            (''chunkno'', PStr ''1-1'')]\<rparr>,
               \<lparr>page_content = ''B'',
                metadata = [(''header_type'', PStr ''h1''), (''source'', PStr ''x.html''),
                            (''chunkno'', PStr ''1-2'')]\<rparr>,
               \<lparr>page_content = ''C'',
                metadata = [(''header_type'', PStr ''p''), (''source'', PStr ''x.html''),
                            (''chunkno'', PStr ''2-1'')]\<rparr>]"
  let ?td = "[\<lparr>page_content = ''a b'', metadata = [(''chunkno'', PInt 7), (''page'', PInt 3)]\<rparr>]"
  let ?to = "[\<lparr>page_content = ''a'', metadata = [(''chunkno'', PInt 1), (''page'', PInt 3)]\<rparr>,
               \<lparr>page_content = ''b'', metadata = [(''chunkno'', PInt 2), (''page'', PInt 3)]\<rparr>]"
  have h: "html_splitter ?lib stub_RecursiveCharacterTextSplitter ?hd 100 20 [''h1'', ''p'']
             = ([], Inr ?ho)"
    by (simp add: html_splitter_def html_splitter_body_def stub_RecursiveCharacterTextSplitter_def
          stub_bs4_def sections_def html_chunk_def str_nat_digit digit_char_def)
  have r: "recursive_text_splitter stub_RecursiveCharacterTextSplitter ?td 100 20 = ([], Inr ?to)"
    by (simp add: recursive_text_splitter_def recursive_text_splitter_body_def
          stub_RecursiveCharacterTextSplitter_def text_chunk_def)
  have c: "character_text_splitter stub_CharacterTextSplitter ?td 100 20 '' '' = ([], Inr ?to)"
    by (simp add: character_text_splitter_def character_text_splitter_body_def
          stub_CharacterTextSplitter_def stub_RecursiveCharacterTextSplitter_def text_chunk_def)
  have 1: "\<exists>split_text. stub_RecursiveCharacterTextSplitter 100 20 = Inr split_text \<and>
      tagged_per_document ?lib split_text [''h1'', ''p''] ?hd ?ho"
    using splitter_keys_replace_colliding_entries
            [where lib = ?lib and rc = stub_RecursiveCharacterTextSplitter and docs = ?hd
               and cs = 100 and co = 20 and hs = "[''h1'', ''p'']" and out = ?ho,
             THEN conjunct1] h
    by blast
  have 2: "\<exists>split_text. stub_RecursiveCharacterTextSplitter 100 20 = Inr split_text \<and>
      numbered_per_document split_text ?td ?to"
    using splitter_keys_replace_colliding_entries
            [where rc = stub_RecursiveCharacterTextSplitter and docs = ?td
               and cs = 100 and co = 20 and out = ?to,
             THEN conjunct2, THEN conjunct1] r
    by blast
  have 3: "\<exists>split_text. stub_CharacterTextSplitter '' '' 100 20 = Inr split_text \<and>
      numbered_per_document split_text ?td ?to"
    using splitter_keys_replace_colliding_entries
            [where cc = stub_CharacterTextSplitter and docs = ?td and sep = "'' ''"
               and cs = 100 and co = 20 and out = ?to,
             THEN conjunct2, THEN conjunct2] c
    by blast
  show ?thesis using h r c 1 2 3 by blast
qed

text \<open>
  A source document that already has entries under \<open>header_type\<close> and \<open>chunkno\<close>
  does not keep them: the chunk has the tag name and the composite chunk number there.
\<close>

theorem reserved_keys_of_the_source_are_overwritten:
  "html_splitter
       (stub_bs4 [(''<h1>A</h1>'', [(''h1'', ''A'')])])
       stub_RecursiveCharacterTextSplitter
       [\<lparr>page_content = ''<h1>A</h1>'',
         metadata = [(''header_type'', PStr ''article''), (''chunkno'', PStr ''9''),
                     (''source'', PStr ''x.html'')]\<rparr>]
       100 20 [''h1''] =
     ([], Inr [\<lparr>page_content = ''A'',
                metadata = [(''header_type'', PStr ''h1''), (''chunkno'', PStr ''1-1''),
                            (''source'', PStr ''x.html'')]\<rparr>]) \<and>
   map_of [(''header_type'', PStr ''article''), (''chunkno'', PStr ''9''),
           (''source'', PStr ''x.html'')] ''header_type'' = Some (PStr ''article'') \<and>
   map_of [(''header_type'', PStr ''h1''), (''chunkno'', PStr ''1-1''),
           (''source'', PStr ''x.html'')] ''header_type'' = Some (PStr ''h1'') \<and>
   map_of [(''header_type'', PStr ''article''), (''chunkno'', PStr ''9''),
           (''source'', PStr ''x.html'')] ''chunkno'' = Some (PStr ''9'') \<and>
   map_of [(''header_type'', PStr ''h1''), (''chunkno'', PStr ''1-1''),
           (''source'', PStr ''x.html'')] ''chunkno'' = Some (PStr ''1-1'')"
  by (simp add: html_splitter_def html_splitter_body_def stub_RecursiveCharacterTextSplitter_def
        stub_bs4_def sections_def html_chunk_def str_nat_digit digit_char_def)

section \<open>Failures of the loaders\<close>

lemmas load_defs =
  load_as_textfile_def load_as_csv_def load_as_html_def load_as_json_def load_as_pdf_def
  load_with_pymupdf_def load_with_unstructuredpdf_def load_with_pypdfium2_def
  load_with_pdfminer_def load_directory_pdfs_def load_with_pdfplumber_def load_online_pdf_def
  fetch_data_from_url_def

text \<open>
  C4 (as amended). Each of the fourteen load methods passes on every failure of its
  library: when the library raises an exception, the method prints exactly one line and
  the same exception reaches the caller; it returns documents only when the library
  returned, and then exactly the library's list, with nothing printed. For a
  \<open>FileNotFoundError\<close> the line is the was-not-found line in \<open>load_as_textfile\<close>,
  \<open>load_as_csv\<close>, \<open>load_as_html\<close>, \<open>load_as_json\<close> and \<open>load_as_pdf\<close>, and
  \<open>Error:\<close> followed by the text of the exception in
  \<open>load_as_csv_with_source_column\<close>; in every other case, and for every exception in
  the eight methods with the single handler, it is the method's own line followed by the
  text of the exception. No method turns another exception into a Not-Found error.
\<close>

theorem loaders_log_and_reraise:
  "logs_and_reraises load_as_textfile
     (\<lambda>self e. ''Error: The file '' @ quote @ format_attr (self_file_path self) @ quote
                @ '' was not found.'')
     (\<lambda>e. ''An error occurred while loading the text file: '' @ str e) \<and>
   logs_and_reraises load_as_csv
     (\<lambda>self e. ''Error: The file '' @ quote @ format_attr (self_file_path self) @ quote
                @ '' was not found.'')
     (\<lambda>e. ''An error occurred while loading the CSV file: '' @ str e) \<and>
   logs_and_reraises load_as_html
     (\<lambda>self e. ''Error: The file '' @ quote @ format_attr (self_file_path self) @ quote
                @ '' was not found.'')
     (\<lambda>e. ''An error occurred while loading the HTML file: '' @ str e) \<and>
   logs_and_reraises load_as_json
     (\<lambda>self e. ''Error: The file '' @ quote @ format_attr (self_file_path self) @ quote
                @ '' was not found.'')
     (\<lambda>e. ''An error occurred while loading the JSON file: '' @ str e) \<and>
   logs_and_reraises load_as_pdf
     (\<lambda>self e. ''Error: The file '' @ quote @ format_attr (self_file_path self) @ quote
                @ '' was not found.'')
     (\<lambda>e. ''An error occurred while loading the PDF file: '' @ str e) \<and>
   logs_and_reraises load_with_pymupdf
     (\<lambda>self e. ''An error occurred while loading the PDF with PyMuPDFLoader: '' @ str e)
     (\<lambda>e. ''An error occurred while loading the PDF with PyMuPDFLoader: '' @ str e) \<and>
   logs_and_reraises load_with_unstructuredpdf
     (\<lambda>self e. ''An error occurred while loading the PDF with UnstructuredPDFLoader: '' @ str e)
     (\<lambda>e. ''An error occurred while loading the PDF with UnstructuredPDFLoader: '' @ str e) \<and>
   logs_and_reraises load_with_pypdfium2
     (\<lambda>self e. ''An error occurred while loading the PDF with PyPDFium2Loader: '' @ str e)
     (\<lambda>e. ''An error occurred while loading the PDF with PyPDFium2Loader: '' @ str e) \<and>
   logs_and_reraises load_with_pdfminer
     (\<lambda>self e. ''An error occurred while loading the PDF with PDFMinerLoader: '' @ str e)
     (\<lambda>e. ''An error occurred while loading the PDF with PDFMinerLoader: '' @ str e) \<and>
   logs_and_reraises load_directory_pdfs
     (\<lambda>self e. ''An error occurred while loading PDFs from directory: '' @ str e)
     (\<lambda>e. ''An error occurred while loading PDFs from directory: '' @ str e) \<and>
   logs_and_reraises load_with_pdfplumber
     (\<lambda>self e. ''An error occurred while loading the PDF with PDFPlumberLoader: '' @ str e)
     (\<lambda>e. ''An error occurred while loading the PDF with PDFPlumberLoader: '' @ str e) \<and>
   logs_and_reraises load_online_pdf
     (\<lambda>self e. ''An error occurred while loading the online PDF: '' @ str e)
     (\<lambda>e. ''An error occurred while loading the online PDF: '' @ str e) \<and>
   logs_and_reraises fetch_data_from_url
     (\<lambda>self e. ''An error occurred while fetching data from the URL: '' @ str e)
     (\<lambda>e. ''An error occurred while fetching data from the URL: '' @ str e) \<and>
   (case LangCSVLoader path source_column of
      Inl e \<Rightarrow>
        load_as_csv_with_source_column LangCSVLoader self path source_column =
          (self,
           [if exn_class e = FileNotFoundError then ''Error: '' @ str e
            else ''An error occurred while loading the CSV file with source column: '' @ str e],
           Inl e)
    | Inr documents \<Rightarrow>
        load_as_csv_with_source_column LangCSVLoader self path source_column
          = (self, [], Inr documents))"
  by (simp add: logs_and_reraises_def load_defs load_as_csv_with_source_column_def
        not_found_line_def split: sum.splits)

theorem loaders_log_and_reraise_witness:
  "stub_file_loader [(''a.txt'', Some ''hello''), (''b.bin'', None)] ''missing.txt'' =
     Inl (Exn FileNotFoundError ''[Errno 2] No such file or directory: missing.txt'') \<and>
   load_as_textfile (stub_file_loader [(''a.txt'', Some ''hello''), (''b.bin'', None)])
       LangChainLoader_init ''missing.txt'' =
     (LangChainLoader_init, [''Error: The file 'None' was not found.''],
      Inl (Exn FileNotFoundError ''[Errno 2] No such file or directory: missing.txt'')) \<and>
   stub_file_loader [(''a.txt'', Some ''hello''), (''b.bin'', None)] ''b.bin'' =
     Inl (Exn OtherError ''could not parse b.bin'') \<and>
   load_with_pymupdf (stub_file_loader [(''a.txt'', Some ''hello''), (''b.bin'', None)])
       LangChainLoader_init ''b.bin'' =
     (LangChainLoader_init,
      [''An error occurred while loading the PDF with PyMuPDFLoader: could not parse b.bin''],
      Inl (Exn OtherError ''could not parse b.bin'')) \<and>
   stub_file_loader [(''a.txt'', Some ''hello''), (''b.bin'', None)] ''a.txt'' =
     Inr [\<lparr>page_content = ''hello'', metadata = [(''source'', PStr ''a.txt'')]\<rparr>] \<and>
   load_as_csv (stub_file_loader [(''a.txt'', Some ''hello''), (''b.bin'', None)])
       LangChainLoader_init ''a.txt'' =
     (LangChainLoader_init, [],
      Inr [\<lparr>page_content = ''hello'', metadata = [(''source'', PStr ''a.txt'')]\<rparr>])"
proof -
  let ?lib = "stub_file_loader [(''a.txt'', Some ''hello''), (''b.bin'', None)]"
  have m: "?lib ''missing.txt'' =
      Inl (Exn FileNotFoundError ''[Errno 2] No such file or directory: missing.txt'')"
    by (simp add: stub_file_loader_def)
  have b: "?lib ''b.bin'' = Inl (Exn OtherError ''could not parse b.bin'')"
    by (simp add: stub_file_loader_def)
  have a: "?lib ''a.txt'' = Inr [\<lparr>page_content = ''hello'', metadata = [(''source'', PStr ''a.txt'')]\<rparr>]"
    by (simp add: stub_file_loader_def)
  have t: "logs_and_reraises load_as_textfile
     (\<lambda>self e. ''Error: The file '' @ quote @ format_attr (self_file_path self) @ quote
                @ '' was not found.'')
     (\<lambda>e. ''An error occurred while loading the text file: '' @ str e)"
    and p: "logs_and_reraises load_with_pymupdf
     (\<lambda>self e. ''An error occurred while loading the PDF with PyMuPDFLoader: '' @ str e)
     (\<lambda>e. ''An error occurred while loading the PDF with PyMuPDFLoader: '' @ str e)"
    and c: "logs_and_reraises load_as_csv
     (\<lambda>self e. ''Error: The file '' @ quote @ format_attr (self_file_path self) @ quote
                @ '' was not found.'')
     (\<lambda>e. ''An error occurred while loading the CSV file: '' @ str e)"
    using loaders_log_and_reraise by blast+
  have 1: "load_as_textfile ?lib LangChainLoader_init ''missing.txt'' =
     (LangChainLoader_init, [''Error: The file 'None' was not found.''],
      Inl (Exn FileNotFoundError ''[Errno 2] No such file or directory: missing.txt''))"
    using t [unfolded logs_and_reraises_def, rule_format, of ?lib LangChainLoader_init
               "''missing.txt''"]
    by (simp add: m quote_def format_attr_def LangChainLoader_init_def)
  have 2: "load_with_pymupdf ?lib LangChainLoader_init ''b.bin'' =
     (LangChainLoader_init,
      [''An error occurred while loading the PDF with PyMuPDFLoader: could not parse b.bin''],
      Inl (Exn OtherError ''could not parse b.bin''))"
    using p [unfolded logs_and_reraises_def, rule_format, of ?lib LangChainLoader_init
               "''b.bin''"]
    by (simp add: b)
  have 3: "load_as_csv ?lib LangChainLoader_init ''a.txt'' =
     (LangChainLoader_init, [],
      Inr [\<lparr>page_content = ''hello'', metadata = [(''source'', PStr ''a.txt'')]\<rparr>])"
    using c [unfolded logs_and_reraises_def, rule_format, of ?lib LangChainLoader_init
               "''a.txt''"]
    by (simp add: a)
  show ?thesis using m b a 1 2 3 by blast
qed

text \<open>
  A PDF path that does not exist, loaded through \<open>load_with_pymupdf\<close>: the loader
  class rejects the path with its own error, and that error, not a Not-Found error, is
  what the method logs and raises.
\<close>

theorem missing_pdf_is_not_a_not_found_error:
  "map_of [(''a.pdf'', ''text'')] ''missing.pdf'' = None \<and>
   load_with_pymupdf (stub_pdf_loader [(''a.pdf'', ''text'')]) LangChainLoader_init
       ''missing.pdf'' =
     (LangChainLoader_init,
      [''An error occurred while loading the PDF with PyMuPDFLoader: File path missing.pdf is not a valid file or url''],
      Inl (Exn OtherError ''File path missing.pdf is not a valid file or url'')) \<and>
   exn_class (Exn OtherError ''File path missing.pdf is not a valid file or url'')
     \<noteq> FileNotFoundError"
  by (simp add: load_with_pymupdf_def stub_pdf_loader_def)




section \<open>Requests and results of the vector-store adapters\<close>

lemmas action_defs =
  and_then_def try_except_def py_return_def py_print_def remote_def new_pc_def
  new_qdrant_client_def

text \<open>
  C8. For every collection name and every behaviour of the client library,
  \<open>create_collection\<close> hands the library's \<open>create_collection\<close> the vector size
  384 and cosine distance: once the client object is built, the outcome of the method and
  the new state of the service are those of that library call with these parameters. The
  method takes no embedding function; \<open>insertion\<close> and \<open>retrieval\<close>, which take
  one, are determined by their own library calls and make no creation call.
\<close>

theorem create_collection_calls_the_library_with_384_cosine:
  "(QdrantClient sdk (qdrant_url self) (qdrant_api_key self) (svc w) = (Inl ex, s1) \<longrightarrow>
      create_collection sdk self collection_name w =
        (Inl ex,
         w\<lparr>svc := s1, trace := trace w @ [Qdrant_client (qdrant_url self) (qdrant_api_key self)]\<rparr>)) \<and>
   (QdrantClient sdk (qdrant_url self) (qdrant_api_key self) (svc w) = (Inr client, s1) \<and>
    qc_create_collection sdk collection_name \<lparr>size_param = 384, distance = COSINE\<rparr> s1
      = (r, s2) \<longrightarrow>
      create_collection sdk self collection_name w =
        (case r of
           Inl ex \<Rightarrow>
             (Inl ex,
              w\<lparr>svc := s2,
                trace := trace w @ [Qdrant_client (qdrant_url self) (qdrant_api_key self),
                                    Qc_create_collection collection_name
                                      \<lparr>size_param = 384, distance = COSINE\<rparr>]\<rparr>)
         | Inr created \<Rightarrow>
             (Inr (RStr collection_name),
              w\<lparr>svc := s2,
                trace := trace w @ [Qdrant_client (qdrant_url self) (qdrant_api_key self),
                                    Qc_create_collection collection_name
                                      \<lparr>size_param = 384, distance = COSINE\<rparr>],
                stdout := stdout w @ [''Your collection '' @ collection_name
                                        @ '' created successfully'']\<rparr>))) \<and>
   (QdrantVectorStore_from_documents sdk documents embeddings (qdrant_url self) True
      (qdrant_api_key self) collection_name (svc w) = (ri, si) \<longrightarrow>
      insertion sdk self documents embeddings collection_name w =
        (case ri of
           Inl ex \<Rightarrow>
             (Inl ex,
              w\<lparr>svc := si,
                trace := trace w @ [Qvs_from_documents documents embeddings (qdrant_url self) True
                                      (qdrant_api_key self) collection_name]\<rparr>)
         | Inr qdrant \<Rightarrow>
             (Inr (RStore qdrant),
              w\<lparr>svc := si,
                trace := trace w @ [Qvs_from_documents documents embeddings (qdrant_url self) True
                                      (qdrant_api_key self) collection_name],
                stdout := stdout w @ [''Insertion successful'']\<rparr>))) \<and>
   (QdrantClient sdk (qdrant_url self) (qdrant_api_key self) (svc w) = (Inr client, s1) \<and>
    Qdrant sdk collection_name embeddings s1 = (rr, sr) \<longrightarrow>
      retrieval sdk self collection_name embeddings w =
        ((case rr of Inl ex \<Rightarrow> Inl ex | Inr qdrant_store \<Rightarrow> Inr (RStore qdrant_store)),
         w\<lparr>svc := sr,
           trace := trace w @ [Qdrant_client (qdrant_url self) (qdrant_api_key self),
                               Qdrant_store collection_name embeddings]\<rparr>))"
  by (simp add: create_collection_def insertion_def retrieval_def action_defs
        split: prod.splits sum.splits)

theorem create_collection_calls_the_library_with_384_cosine_witness:
  "QdrantClient memory_qdrant [] ''k'' (Some []) = (Inl (Exn OtherError ''no URL given''), Some []) \<and>
   create_collection memory_qdrant \<lparr>qdrant_url = [], qdrant_api_key = ''k''\<rparr> ''docs''
       \<lparr>svc = Some [], trace = [], stdout = []\<rparr> =
     (Inl (Exn OtherError ''no URL given''),
      \<lparr>svc = Some [], trace = [Qdrant_client [] ''k''], stdout = []\<rparr>) \<and>
   QdrantClient memory_qdrant ''http://q'' ''k'' (Some []) = (Inr (), Some []) \<and>
   qc_create_collection memory_qdrant ''docs'' \<lparr>size_param = 384, distance = COSINE\<rparr> (Some [])
     = (Inr True, Some [''docs'']) \<and>
   create_collection memory_qdrant \<lparr>qdrant_url = ''http://q'', qdrant_api_key = ''k''\<rparr> ''docs''
       \<lparr>svc = Some [], trace = [], stdout = []\<rparr> =
     (Inr (RStr ''docs''),
      \<lparr>svc = Some [''docs''],
       trace = [Qdrant_client ''http://q'' ''k'',
                Qc_create_collection ''docs'' \<lparr>size_param = 384, distance = COSINE\<rparr>],
       stdout = [''Your collection docs created successfully'']\<rparr>) \<and>
   QdrantVectorStore_from_documents memory_qdrant [\<lparr>page_content = ''a'', metadata = []\<rparr>]
       ''model-with-768-dimensions'' ''http://q'' True ''k'' ''docs'' (Some [''docs''])
     = (Inr ''docs'', Some [''docs'']) \<and>
   insertion memory_qdrant \<lparr>qdrant_url = ''http://q'', qdrant_api_key = ''k''\<rparr>
       [\<lparr>page_content = ''a'', metadata = []\<rparr>] ''model-with-768-dimensions'' ''docs''
       \<lparr>svc = Some [''docs''], trace = [], stdout = []\<rparr> =
     (Inr (RStore ''docs''),
      \<lparr>svc = Some [''docs''],
       trace = [Qvs_from_documents [\<lparr>page_content = ''a'', metadata = []\<rparr>]
                  ''model-with-768-dimensions'' ''http://q'' True ''k'' ''docs''],
       stdout = [''Insertion successful'']\<rparr>) \<and>
   Qdrant memory_qdrant ''docs'' ''model-with-768-dimensions'' (Some [''docs''])
     = (Inr ''docs'', Some [''docs'']) \<and>
   retrieval memory_qdrant \<lparr>qdrant_url = ''http://q'', qdrant_api_key = ''k''\<rparr> ''docs''
       ''model-with-768-dimensions'' \<lparr>svc = Some [''docs''], trace = [], stdout = []\<rparr> =
     (Inr (RStore ''docs''),
      \<lparr>svc = Some [''docs''],
       trace = [Qdrant_client ''http://q'' ''k'',
                Qdrant_store ''docs'' ''model-with-768-dimensions''],
       stdout = []\<rparr>)"
proof -
  let ?b = "\<lparr>qdrant_url = ''http://q'', qdrant_api_key = ''k''\<rparr>"
  let ?nourl = "\<lparr>qdrant_url = [], qdrant_api_key = ''k''\<rparr>"
  let ?fresh = "\<lparr>svc = Some [], trace = ([] :: string request list), stdout = []\<rparr>"
  let ?full = "\<lparr>svc = Some [''docs''], trace = ([] :: string request list), stdout = []\<rparr>"
  let ?d = "[\<lparr>page_content = ''a'', metadata = []\<rparr>]"
  let ?m = "''model-with-768-dimensions''"
  have 1: "QdrantClient memory_qdrant (qdrant_url ?nourl) (qdrant_api_key ?nourl) (svc ?fresh)
             = (Inl (Exn OtherError ''no URL given''), Some [])"
    by (simp add: memory_qdrant_def)
  have 2: "QdrantClient memory_qdrant (qdrant_url ?b) (qdrant_api_key ?b) (svc ?fresh)
             = (Inr (), Some [])"
    by (simp add: memory_qdrant_def)
  have 3: "qc_create_collection memory_qdrant ''docs'' \<lparr>size_param = 384, distance = COSINE\<rparr>
             (Some []) = (Inr True, Some [''docs''])"
    by (simp add: memory_qdrant_def when_up_def)
  have 4: "QdrantVectorStore_from_documents memory_qdrant ?d ?m (qdrant_url ?b) True
             (qdrant_api_key ?b) ''docs'' (svc ?full) = (Inr ''docs'', Some [''docs''])"
    by (simp add: memory_qdrant_def when_up_def)
  have 5: "QdrantClient memory_qdrant (qdrant_url ?b) (qdrant_api_key ?b) (svc ?full)
             = (Inr (), Some [''docs''])"
    by (simp add: memory_qdrant_def)
  have 6: "Qdrant memory_qdrant ''docs'' ?m (Some [''docs'']) = (Inr ''docs'', Some [''docs''])"
    by (simp add: memory_qdrant_def when_up_def)
  have a: "create_collection memory_qdrant ?nourl ''docs'' ?fresh =
     (Inl (Exn OtherError ''no URL given''),
      \<lparr>svc = Some [], trace = [Qdrant_client [] ''k''], stdout = []\<rparr>)"
    using create_collection_calls_the_library_with_384_cosine
            [where sdk = memory_qdrant and self = ?nourl and w = ?fresh
               and ex = "Exn OtherError ''no URL given''" and ?s1.0 = "Some []"
               and collection_name = "''docs''", THEN conjunct1] 1
    by simp
  have b: "create_collection memory_qdrant ?b ''docs'' ?fresh =
     (Inr (RStr ''docs''),
      \<lparr>svc = Some [''docs''],
       trace = [Qdrant_client ''http://q'' ''k'',
                Qc_create_collection ''docs'' \<lparr>size_param = 384, distance = COSINE\<rparr>],
       stdout = [''Your collection docs created successfully'']\<rparr>)"
    using create_collection_calls_the_library_with_384_cosine
            [where sdk = memory_qdrant and self = ?b and w = ?fresh and client = "()"
               and ?s1.0 = "Some []" and collection_name = "''docs''" and r = "Inr True"
               and ?s2.0 = "Some [''docs'']", THEN conjunct2, THEN conjunct1] 2 3
    by simp
  have c: "insertion memory_qdrant ?b ?d ?m ''docs'' ?full =
     (Inr (RStore ''docs''),
      \<lparr>svc = Some [''docs''],
       trace = [Qvs_from_documents ?d ?m ''http://q'' True ''k'' ''docs''],
       stdout = [''Insertion successful'']\<rparr>)"
    using create_collection_calls_the_library_with_384_cosine
            [where sdk = memory_qdrant and self = ?b and w = ?full and documents = ?d
               and embeddings = ?m and collection_name = "''docs''" and ri = "Inr ''docs''"
               and si = "Some [''docs'']", THEN conjunct2, THEN conjunct2, THEN conjunct1] 4
    by simp
  have d: "retrieval memory_qdrant ?b ''docs'' ?m ?full =
     (Inr (RStore ''docs''),
      \<lparr>svc = Some [''docs''],
       trace = [Qdrant_client ''http://q'' ''k'', Qdrant_store ''docs'' ?m],
       stdout = []\<rparr>)"
    using create_collection_calls_the_library_with_384_cosine
            [where sdk = memory_qdrant and self = ?b and w = ?full and client = "()"
               and ?s1.0 = "Some [''docs'']" and embeddings = ?m
               and collection_name = "''docs''" and rr = "Inr ''docs''"
               and sr = "Some [''docs'']", THEN conjunct2, THEN conjunct2, THEN conjunct2] 5 6
    by simp
  show ?thesis using 1 2 3 4 5 6 a b c d by simp
qed

text \<open>
  C7 (as amended). Service A lists the indexes first; for a name that is not listed it
  sends no delete request and returns the message that the index does not exist. Service
  B sends the delete request without asking whether the collection exists: it returns the
  collection name whenever the client call returns, and raises when the client call raises.
\<close>

theorem delete_of_a_missing_index:
  "(Pinecone sdkA (api_key selfA) (svc w) = (Inr pc, s1) \<and>
    pc_list_indexes_names sdkA s1 = (Inr indexes, s2) \<and> index_name \<notin> set indexes \<longrightarrow>
      delete_index_name sdkA selfA index_name w =
        (Inr (RStr (''Index '' @ quote @ index_name @ quote @ '' does not exist.'')),
         w\<lparr>svc := s2, trace := trace w @ [Pinecone_client (api_key selfA), Pc_list_indexes]\<rparr>)) \<and>
   (QdrantClient sdkB (qdrant_url selfB) (qdrant_api_key selfB) (svc w) = (Inr client, t1) \<and>
    qc_delete_collection sdkB collection_name t1 = (r, t2) \<longrightarrow>
      delete_collection sdkB selfB collection_name w =
        ((case r of Inl ex \<Rightarrow> Inl ex | Inr deleted \<Rightarrow> Inr (RStr collection_name)),
         w\<lparr>svc := t2,
           trace := trace w @ [Qdrant_client (qdrant_url selfB) (qdrant_api_key selfB),
                               Qc_delete_collection collection_name]\<rparr>))"
  by (simp add: delete_index_name_def delete_index_name_body_def delete_collection_def action_defs
        split: prod.splits sum.splits)

theorem delete_of_a_missing_index_witness:
  "Pinecone memory_pinecone (api_key \<lparr>api_key = ''k''\<rparr>)
       (svc \<lparr>svc = Some [''docs''], trace = ([] :: string request list), stdout = []\<rparr>) =
     (Inr (), Some [''docs'']) \<and>
   pc_list_indexes_names memory_pinecone (Some [''docs'']) = (Inr [''docs''], Some [''docs'']) \<and>
   ''ghost'' \<notin> set [''docs''] \<and>
   delete_index_name memory_pinecone \<lparr>api_key = ''k''\<rparr> ''ghost''
       \<lparr>svc = Some [''docs''], trace = ([] :: string request list), stdout = []\<rparr> =
     (Inr (RStr ''Index 'ghost' does not exist.''),
      \<lparr>svc = Some [''docs''], trace = [Pinecone_client ''k'', Pc_list_indexes], stdout = []\<rparr>) \<and>
   QdrantClient memory_qdrant (qdrant_url \<lparr>qdrant_url = ''http://q'', qdrant_api_key = ''k''\<rparr>)
       (qdrant_api_key \<lparr>qdrant_url = ''http://q'', qdrant_api_key = ''k''\<rparr>)
       (svc \<lparr>svc = Some [''docs''], trace = ([] :: string request list), stdout = []\<rparr>) =
     (Inr (), Some [''docs'']) \<and>
   qc_delete_collection memory_qdrant ''docs'' (Some [''docs'']) = (Inr True, Some []) \<and>
   delete_collection memory_qdrant \<lparr>qdrant_url = ''http://q'', qdrant_api_key = ''k''\<rparr> ''docs''
       \<lparr>svc = Some [''docs''], trace = ([] :: string request list), stdout = []\<rparr> =
     (Inr (RStr ''docs''),
      \<lparr>svc = Some [], trace = [Qdrant_client ''http://q'' ''k'', Qc_delete_collection ''docs''],
       stdout = []\<rparr>)"
proof -
  let ?w = "\<lparr>svc = Some [''docs''], trace = ([] :: string request list), stdout = []\<rparr>"
  let ?a = "\<lparr>api_key = ''k''\<rparr>"
  let ?b = "\<lparr>qdrant_url = ''http://q'', qdrant_api_key = ''k''\<rparr>"
  have 1: "Pinecone memory_pinecone
             (api_key ?a) (svc ?w) = (Inr (), Some [''docs''])"
    by (simp add: memory_pinecone_def)
  have 2: "pc_list_indexes_names memory_pinecone
             (Some [''docs'']) = (Inr [''docs''], Some [''docs''])"
    by (simp add: memory_pinecone_def when_up_def)
  have 3: "''ghost'' \<notin> set [''docs'']" by simp
  have 4: "QdrantClient memory_qdrant
             (qdrant_url ?b) (qdrant_api_key ?b) (svc ?w) = (Inr (), Some [''docs''])"
    by (simp add: memory_qdrant_def)
  have 5: "qc_delete_collection memory_qdrant
             ''docs'' (Some [''docs'']) = (Inr True, Some [])"
    by (simp add: memory_qdrant_def when_up_def)
  from delete_of_a_missing_index
         [where sdkA = memory_pinecone
            and selfA = ?a and w = ?w and pc = "()" and ?s1.0 = "Some [''docs'']"
            and indexes = "[''docs'']" and ?s2.0 = "Some [''docs'']" and index_name = "''ghost''"
            and sdkB = memory_qdrant
            and selfB = ?b and client = "()" and ?t1.0 = "Some [''docs'']"
            and collection_name = "''docs''" and r = "Inr True" and ?t2.0 = "Some []"]
       1 2 3 4 5
  show ?thesis by (simp add: quote_def)
qed

text \<open>
  Deleting a collection that does not exist through service B: the delete request is the
  only request after the client is built, and the result is the collection name, not a
  does-not-exist message.
\<close>

theorem delete_collection_does_not_check_existence:
  "delete_collection memory_qdrant \<lparr>qdrant_url = ''http://q'', qdrant_api_key = ''k''\<rparr> ''ghost''
       \<lparr>svc = Some [''docs''], trace = ([] :: string request list), stdout = []\<rparr> =
     (Inr (RStr ''ghost''),
      \<lparr>svc = Some [''docs''],
       trace = [Qdrant_client ''http://q'' ''k'', Qc_delete_collection ''ghost''],
       stdout = []\<rparr>)"
  by (simp add: delete_collection_def action_defs memory_qdrant_def when_up_def)

text \<open>
  C6 (as amended). When the service rejects a creation request with an error, as it does
  for a name that exists already, \<open>create_index\<close> of service A prints nothing and
  returns the string \<open>Sorry, try again.\<close> followed by the text of the error, while
  \<open>create_collection\<close> of service B has no handler: the error reaches the caller as
  an exception.
\<close>

theorem creation_rejected_by_the_service:
  "(Pinecone sdkA (api_key selfA) (svc w) = (Inr pc, s1) \<and>
    pc_create_index sdkA index_name dimensions ''cosine'' ''aws'' ''us-east-1'' s1 = (Inl ex, s2) \<longrightarrow>
      create_index sdkA selfA index_name dimensions w =
        (Inr (RStr (''Sorry, try again. '' @ str ex)),
         w\<lparr>svc := s2,
           trace := trace w @ [Pinecone_client (api_key selfA),
                               Pc_create_index index_name dimensions ''cosine'' ''aws''
                                 ''us-east-1'']\<rparr>)) \<and>
   (QdrantClient sdkB (qdrant_url selfB) (qdrant_api_key selfB) (svc v) = (Inr client, t1) \<and>
    qc_create_collection sdkB collection_name \<lparr>size_param = 384, distance = COSINE\<rparr> t1
      = (Inl ex, t2) \<longrightarrow>
      create_collection sdkB selfB collection_name v =
        (Inl ex,
         v\<lparr>svc := t2,
           trace := trace v @ [Qdrant_client (qdrant_url selfB) (qdrant_api_key selfB),
                               Qc_create_collection collection_name
                                 \<lparr>size_param = 384, distance = COSINE\<rparr>]\<rparr>))"
  by (simp add: create_index_def create_index_body_def create_collection_def action_defs)

theorem creation_rejected_by_the_service_witness:
  "create_index memory_pinecone \<lparr>api_key = ''k''\<rparr> ''docs'' 384
       \<lparr>svc = Some [], trace = [], stdout = []\<rparr> =
     (Inr (RStr ''docs''),
      \<lparr>svc = Some [''docs''],
       trace = [Pinecone_client ''k'',
                Pc_create_index ''docs'' 384 ''cosine'' ''aws'' ''us-east-1''],
       stdout = [''Your index docs created successfully'']\<rparr>) \<and>
   Pinecone memory_pinecone ''k'' (Some [''docs'']) = (Inr (), Some [''docs'']) \<and>
   pc_create_index memory_pinecone ''docs'' 384 ''cosine'' ''aws'' ''us-east-1'' (Some [''docs'']) =
     (Inl (Exn OtherError ''(409) Conflict: index already exists''), Some [''docs'']) \<and>
   create_index memory_pinecone \<lparr>api_key = ''k''\<rparr> ''docs'' 384
       \<lparr>svc = Some [''docs''],
        trace = [Pinecone_client ''k'',
                 Pc_create_index ''docs'' 384 ''cosine'' ''aws'' ''us-east-1''],
        stdout = [''Your index docs created successfully'']\<rparr> =
     (Inr (RStr ''Sorry, try again. (409) Conflict: index already exists''),
      \<lparr>svc = Some [''docs''],
       trace = [Pinecone_client ''k'',
                Pc_create_index ''docs'' 384 ''cosine'' ''aws'' ''us-east-1'',
                Pinecone_client ''k'',
                Pc_create_index ''docs'' 384 ''cosine'' ''aws'' ''us-east-1''],
       stdout = [''Your index docs created successfully'']\<rparr>) \<and>
   QdrantClient memory_qdrant ''http://q'' ''k'' (Some [''docs'']) = (Inr (), Some [''docs'']) \<and>
   qc_create_collection memory_qdrant ''docs'' \<lparr>size_param = 384, distance = COSINE\<rparr>
       (Some [''docs'']) =
     (Inl (Exn OtherError ''(409) Conflict: collection already exists''), Some [''docs'']) \<and>
   create_collection memory_qdrant \<lparr>qdrant_url = ''http://q'', qdrant_api_key = ''k''\<rparr> ''docs''
       \<lparr>svc = Some [''docs''], trace = [], stdout = []\<rparr> =
     (Inl (Exn OtherError ''(409) Conflict: collection already exists''),
      \<lparr>svc = Some [''docs''],
       trace = [Qdrant_client ''http://q'' ''k'',
                Qc_create_collection ''docs'' \<lparr>size_param = 384, distance = COSINE\<rparr>],
       stdout = []\<rparr>)"
proof -
  let ?a = "\<lparr>api_key = ''k''\<rparr>"
  let ?b = "\<lparr>qdrant_url = ''http://q'', qdrant_api_key = ''k''\<rparr>"
  let ?w1 = "\<lparr>svc = Some [''docs''],
        trace = [Pinecone_client ''k'',
                 Pc_create_index ''docs'' 384 ''cosine'' ''aws'' ''us-east-1''],
        stdout = [''Your index docs created successfully'']\<rparr>"
  let ?v = "\<lparr>svc = Some [''docs''], trace = ([] :: string request list), stdout = []\<rparr>"
  have 0: "create_index memory_pinecone ?a ''docs'' 384
             \<lparr>svc = Some [], trace = [], stdout = []\<rparr> = (Inr (RStr ''docs''), ?w1)"
    by (simp add: create_index_def create_index_body_def action_defs memory_pinecone_def
          when_up_def)
  have 1: "Pinecone memory_pinecone (api_key ?a) (svc ?w1) = (Inr (), Some [''docs''])"
    by (simp add: memory_pinecone_def)
  have 2: "pc_create_index memory_pinecone ''docs'' 384 ''cosine'' ''aws'' ''us-east-1''
             (Some [''docs'']) =
           (Inl (Exn OtherError ''(409) Conflict: index already exists''), Some [''docs''])"
    by (simp add: memory_pinecone_def when_up_def)
  have 3: "QdrantClient memory_qdrant (qdrant_url ?b) (qdrant_api_key ?b) (svc ?v)
             = (Inr (), Some [''docs''])"
    by (simp add: memory_qdrant_def)
  have 4: "qc_create_collection memory_qdrant ''docs'' \<lparr>size_param = 384, distance = COSINE\<rparr>
             (Some [''docs'']) =
           (Inl (Exn OtherError ''(409) Conflict: collection already exists''), Some [''docs''])"
    by (simp add: memory_qdrant_def when_up_def)
  have a: "create_index memory_pinecone ?a ''docs'' 384 ?w1 =
        (Inr (RStr (''Sorry, try again. '' @ str (Exn OtherError ''(409) Conflict: index already exists''))),
         ?w1\<lparr>svc := Some [''docs''],
           trace := trace ?w1 @ [Pinecone_client (api_key ?a),
                               Pc_create_index ''docs'' 384 ''cosine'' ''aws''
                                 ''us-east-1'']\<rparr>)"
    using creation_rejected_by_the_service
         [where sdkA = memory_pinecone and selfA = ?a and w = ?w1 and pc = "()"
            and ?s1.0 = "Some [''docs'']" and index_name = "''docs''" and dimensions = 384
            and ex = "Exn OtherError ''(409) Conflict: index already exists''"
            and ?s2.0 = "Some [''docs'']", THEN conjunct1] 1 2
    by blast
  have b: "create_collection memory_qdrant ?b ''docs'' ?v =
        (Inl (Exn OtherError ''(409) Conflict: collection already exists''),
         ?v\<lparr>svc := Some [''docs''],
           trace := trace ?v @ [Qdrant_client (qdrant_url ?b) (qdrant_api_key ?b),
                               Qc_create_collection ''docs''
                                 \<lparr>size_param = 384, distance = COSINE\<rparr>]\<rparr>)"
    using creation_rejected_by_the_service
         [where sdkB = memory_qdrant and selfB = ?b and v = ?v and client = "()"
            and ?t1.0 = "Some [''docs'']" and collection_name = "''docs''"
            and ex = "Exn OtherError ''(409) Conflict: collection already exists''"
            and ?t2.0 = "Some [''docs'']", THEN conjunct2] 3 4
    by blast
  show ?thesis using 0 1 2 3 4 a b by simp
qed

text \<open>
  Creating the same collection twice through service B: the first call returns the name,
  the second raises the conflict error of the service; it returns no string.
\<close>

theorem second_create_collection_raises:
  "create_collection memory_qdrant \<lparr>qdrant_url = ''http://q'', qdrant_api_key = ''k''\<rparr> ''notes''
       \<lparr>svc = Some [], trace = [], stdout = []\<rparr> =
     (Inr (RStr ''notes''),
      \<lparr>svc = Some [''notes''],
       trace = [Qdrant_client ''http://q'' ''k'',
                Qc_create_collection ''notes'' \<lparr>size_param = 384, distance = COSINE\<rparr>],
       stdout = [''Your collection notes created successfully'']\<rparr>) \<and>
   create_collection memory_qdrant \<lparr>qdrant_url = ''http://q'', qdrant_api_key = ''k''\<rparr> ''notes''
       \<lparr>svc = Some [''notes''],
        trace = [Qdrant_client ''http://q'' ''k'',
                 Qc_create_collection ''notes'' \<lparr>size_param = 384, distance = COSINE\<rparr>],
        stdout = [''Your collection notes created successfully'']\<rparr> =
     (Inl (Exn OtherError ''(409) Conflict: collection already exists''),
      \<lparr>svc = Some [''notes''],
       trace = [Qdrant_client ''http://q'' ''k'',
                Qc_create_collection ''notes'' \<lparr>size_param = 384, distance = COSINE\<rparr>,
                Qdrant_client ''http://q'' ''k'',
                Qc_create_collection ''notes'' \<lparr>size_param = 384, distance = COSINE\<rparr>],
       stdout = [''Your collection notes created successfully'']\<rparr>)"
  by (simp add: create_collection_def action_defs memory_qdrant_def when_up_def)


section \<open>Error paths of the vector-store adapters\<close>








end
